theory Spec2Isabelle
  imports Main "HOL-Library.Word"
begin

unbundle bit_operations_syntax

section \<open>Machine integers of the C and C++ sources\<close>

text \<open>
  \<open>int64_t\<close>, \<open>int32_t\<close> and \<open>size_t\<close> (64 bit) are words. Arithmetic wraps around, which
  is what the compiled code does where C leaves signed overflow undefined. Signed
  comparisons are \<open><s\<close> and \<open>\<le>s\<close>; comparisons of \<open>size_t\<close> values are the unsigned
  \<open><\<close> and \<open>\<le>\<close>.
\<close>

type_synonym int64 = "64 word"
type_synonym int32 = "32 word"
type_synonym size_t = "64 word"
type_synonym byte = "8 word"

text \<open>The address of a counter value in the counters values buffer.\<close>

type_synonym addr = nat

definition INT64_MAX :: int64 where
  "INT64_MAX = 0x7FFFFFFFFFFFFFFF"

text \<open>C's \<open>/\<close> and \<open>%\<close> on signed operands truncate towards zero.\<close>

definition c_div64 :: "int64 \<Rightarrow> int64 \<Rightarrow> int64" where
  "c_div64 a b = word_of_int (sgn (sint a) * sgn (sint b) * (\<bar>sint a\<bar> div \<bar>sint b\<bar>))"

definition c_rem32 :: "int32 \<Rightarrow> int32 \<Rightarrow> int32" where
  "c_rem32 a b = word_of_int (sgn (sint a) * (\<bar>sint a\<bar> mod \<bar>sint b\<bar>))"

definition c_rem64 :: "int64 \<Rightarrow> int64 \<Rightarrow> int64" where
  "c_rem64 a b = word_of_int (sgn (sint a) * (\<bar>sint a\<bar> mod \<bar>sint b\<bar>))"

text \<open>
  What the model reports where the C code reads or writes outside an object: a null
  pointer dereferenced, an array indexed or a buffer written out of its bounds.
\<close>

datatype fault = NullDereference | OutOfBounds

section \<open>Log buffer descriptor\<close>

text \<open>
  Modelled from the spec: \<open>AERON_LOGBUFFER_PARTITION_COUNT\<close> is declared in the log
  buffer descriptor header, which is not among the sources. The spec has "P term
  partitions (P = 3)".
\<close>

definition AERON_LOGBUFFER_PARTITION_COUNT :: nat where
  "AERON_LOGBUFFER_PARTITION_COUNT = 3"

text \<open>
  Modelled from the spec: \<open>aeron_logbuffer_index_by_term_count\<close> is an inline function
  of the same header. The spec has "the active partition index is
  \<open>activeTermCount mod P\<close>"; the count is an \<open>int32_t\<close>, the remainder is C's and the result
  is converted to \<open>size_t\<close>, so a negative count gives an index outside the array.
\<close>

definition aeron_logbuffer_index_by_term_count :: "int32 \<Rightarrow> size_t" where
  "aeron_logbuffer_index_by_term_count term_count =
     scast (c_rem32 term_count (word_of_nat AERON_LOGBUFFER_PARTITION_COUNT))"

text \<open>
  Modelled from the spec: \<open>aeron_logbuffer_index_by_position\<close> is an inline function of
  the same header. The spec has a position as
  \<open>((termId - initialTermId) << positionBitsToShift) + termOffset\<close>, so the term count of a
  position is the position shifted right (arithmetically, the position is an \<open>int64_t\<close>)
  by \<open>positionBitsToShift\<close>, and its partition is that count \<open>mod P\<close>.
\<close>

definition aeron_logbuffer_index_by_position :: "int64 \<Rightarrow> size_t \<Rightarrow> size_t" where
  "aeron_logbuffer_index_by_position position position_bits_to_shift =
     c_rem64 (signed_drop_bit (unat position_bits_to_shift) position)
       (word_of_nat AERON_LOGBUFFER_PARTITION_COUNT)"

text \<open>
  The log meta data (\<open>aeron_logbuffer_metadata_t\<close>), with the fields that
  \<open>aeron_ipc_publication_create\<close> and \<open>aeron_ipc_publication_decref\<close> assign.
  \<open>term_tail_counters\<close> is an array of \<open>AERON_LOGBUFFER_PARTITION_COUNT\<close> values.
\<close>

record aeron_logbuffer_metadata =
  term_tail_counters :: "int64 list"
  active_term_count :: int32
  initial_term_id :: int32
  mtu_length :: int32
  term_length :: int32
  page_size :: int32
  correlation_id :: int64
  is_connected :: int32
  active_transport_count :: int32
  end_of_stream_position :: int64

section \<open>The IPC publication\<close>

datatype aeron_subscription_tether_state =
  AERON_SUBSCRIPTION_TETHER_ACTIVE
| AERON_SUBSCRIPTION_TETHER_LINGER
| AERON_SUBSCRIPTION_TETHER_RESTING

datatype aeron_ipc_publication_state =
  AERON_IPC_PUBLICATION_STATE_ACTIVE
| AERON_IPC_PUBLICATION_STATE_INACTIVE
| AERON_IPC_PUBLICATION_STATE_LINGER

text \<open>
  \<open>aeron_position_t\<close> is a counter id with the address of the counter's value;
  \<open>aeron_tetherable_position_t\<close> has the same two fields and the tether fields (its
  \<open>state\<close> is \<open>tether_state\<close> here, apart from the publication's \<open>state\<close>).
\<close>

record aeron_position =
  counter_id :: int32
  value_addr :: addr

record aeron_tetherable_position = aeron_position +
  is_tether :: bool
  tether_state :: aeron_subscription_tether_state
  subscription_registration_id :: int64
  time_of_last_update_ns :: int64

text \<open>
  \<open>aeron_ipc_publication_t\<close>. The nested structs are flattened: a field of
  \<open>conductor_fields\<close> keeps its own name (\<open>conductor_fields.trip_limit\<close> is
  \<open>trip_limit\<close>), \<open>conductor_fields.subscribable\<close> is the list of its \<open>array\<close> (its
  \<open>length\<close> is the length of the list), \<open>conductor_fields.managed_resource.registration_id\<close>
  is \<open>registration_id\<close>, and the fields of \<open>mapped_raw_log\<close> carry its name. Each term
  buffer is the list of its bytes. \<open>pub_initial_term_id\<close> is the publication's own
  \<open>initial_term_id\<close>.
\<close>

record aeron_ipc_publication =
  log_meta_data :: aeron_logbuffer_metadata
  mapped_raw_log_term_buffers :: "byte list list"
  mapped_raw_log_term_length :: size_t
  log_file_name :: string
  subscribable :: "aeron_tetherable_position list"
  registration_id :: int64
  has_reached_end_of_life :: bool
  trip_limit :: int64
  time_of_last_consumer_position_change :: int64
  state :: aeron_ipc_publication_state
  refcnt :: int32
  consumer_position :: int64
  last_consumer_position :: int64
  clean_position :: int64
  session_id :: int32
  stream_id :: int32
  pub_lmt_position :: aeron_position
  pub_pos_position :: aeron_position
  pub_initial_term_id :: int32
  position_bits_to_shift :: size_t
  term_window_length :: int64
  trip_gain :: int64
  unblock_timeout_ns :: int64
  is_exclusive :: bool

text \<open>
  The ordered (release) stores the functions below perform, in program order:
  \<open>aeron_counter_set_ordered\<close> on a counter, \<open>AERON_PUT_ORDERED\<close> on the meta data's
  \<open>end_of_stream_position\<close>, and \<open>AERON_PUT_ORDERED\<close> of the first eight bytes of a
  cleaned range (term buffer index and offset).
\<close>

datatype ordered_store =
  CounterSetOrdered addr int64
| PutOrderedEndOfStreamPosition int64
| PutOrderedTermBuffer nat nat int64

text \<open>
  The memory the conductor works on: the counters values buffer, which the publication
  reaches through the \<open>value_addr\<close> pointers, the publication, and the trace of ordered
  stores.
\<close>

record ipc_driver =
  counters :: "addr \<Rightarrow> int64"
  publication :: aeron_ipc_publication
  ordered_stores :: "ordered_store list"

definition aeron_counter_get_volatile :: "ipc_driver \<Rightarrow> addr \<Rightarrow> int64" where
  "aeron_counter_get_volatile d a = counters d a"

definition aeron_counter_get :: "ipc_driver \<Rightarrow> addr \<Rightarrow> int64" where
  "aeron_counter_get d a = counters d a"

definition aeron_counter_set_ordered :: "ipc_driver \<Rightarrow> addr \<Rightarrow> int64 \<Rightarrow> ipc_driver" where
  "aeron_counter_set_ordered d a v =
     d\<lparr>counters := (counters d)(a := v),
       ordered_stores := ordered_stores d @ [CounterSetOrdered a v]\<rparr>"

subsection \<open>\<open>aeron_ipc_publication_clean_buffer\<close>\<close>

text \<open>
  \<open>memset(buf + off, 0, n)\<close> on a term buffer: the bytes \<open>off ..< off + n\<close> become zero.
  A range that leaves the buffer is a fault.
\<close>

definition memset_zero :: "byte list \<Rightarrow> nat \<Rightarrow> nat \<Rightarrow> fault + byte list" where
  "memset_zero buf off n =
     (if off + n \<le> length buf
      then Inr (take off buf @ replicate n 0 @ drop (off + n) buf)
      else Inl OutOfBounds)"

text \<open>
  The body of \<open>aeron_ipc_publication_clean_buffer\<close>. The \<open>memset\<close> clears \<open>length - 8\<close>
  bytes from \<open>term_offset + 8\<close>, with \<open>length - sizeof(int64_t)\<close> computed in \<open>size_t\<close>; the
  ordered store then clears the eight bytes at \<open>term_offset\<close>.
\<close>

definition aeron_ipc_publication_clean_buffer :: "ipc_driver \<Rightarrow> int64 \<Rightarrow> fault + ipc_driver" where
  "aeron_ipc_publication_clean_buffer d position =
     (let pub = publication d;
          clean_position = clean_position pub
      in if clean_position <s position then
           let dirty_index = aeron_logbuffer_index_by_position clean_position (position_bits_to_shift pub);
               bytes_to_clean = position - clean_position;
               term_length = mapped_raw_log_term_length pub;
               term_offset = clean_position AND (term_length - 1);
               bytes_left_in_term = term_length - term_offset;
               length = (if bytes_to_clean < bytes_left_in_term then bytes_to_clean else bytes_left_in_term)
           in if unat dirty_index < List.length (mapped_raw_log_term_buffers pub) then
                case memset_zero (mapped_raw_log_term_buffers pub ! unat dirty_index)
                       (unat term_offset + 8) (unat (length - 8)) of
                  Inl e \<Rightarrow> Inl e
                | Inr buf1 \<Rightarrow>
                   (case memset_zero buf1 (unat term_offset) 8 of
                      Inl e \<Rightarrow> Inl e
                    | Inr buf2 \<Rightarrow>
                        Inr (d\<lparr>publication := pub
                                 \<lparr>mapped_raw_log_term_buffers :=
                                    (mapped_raw_log_term_buffers pub)[unat dirty_index := buf2],
                                  clean_position := clean_position + length\<rparr>,
                               ordered_stores := ordered_stores d @
                                 [PutOrderedTermBuffer (unat dirty_index) (unat term_offset) 0]\<rparr>))
              else Inl OutOfBounds
         else Inr d)"

text \<open>
  The quantities \<open>aeron_ipc_publication_clean_buffer\<close> computes from the publication and
  the position: the index of the dirty term buffer, the offset of the clean position in
  its term, and the number of bytes it clears, which is \<open>bytes_to_clean\<close> capped by
  \<open>bytes_left_in_term\<close>.
\<close>

definition dirty_index_of :: "aeron_ipc_publication \<Rightarrow> nat" where
  "dirty_index_of pub =
     unat (aeron_logbuffer_index_by_position (clean_position pub) (position_bits_to_shift pub))"

definition term_offset_of :: "aeron_ipc_publication \<Rightarrow> size_t" where
  "term_offset_of pub = clean_position pub AND (mapped_raw_log_term_length pub - 1)"

definition clean_length_of :: "aeron_ipc_publication \<Rightarrow> int64 \<Rightarrow> size_t" where
  "clean_length_of pub position =
     (let bytes_to_clean = position - clean_position pub;
          bytes_left_in_term = mapped_raw_log_term_length pub - term_offset_of pub
      in if bytes_to_clean < bytes_left_in_term then bytes_to_clean else bytes_left_in_term)"

text \<open>
  What the spec asks of a call that cleans ("zero term-buffer bytes from \<open>cleanPosition\<close>
  up to \<open>position\<close> but never past the end of the containing term", "update
  \<open>cleanPosition\<close> by the number of bytes actually cleared"): in the dirty term buffer the
  bytes from the offset of the clean position on, as many as the capped length, are
  zero and every other byte is as before; the clean position has advanced by the capped
  length; one ordered store is recorded.
\<close>

definition cleaned_up_to :: "ipc_driver \<Rightarrow> int64 \<Rightarrow> ipc_driver" where
  "cleaned_up_to d position =
     (let pub = publication d;
          i = dirty_index_of pub;
          off = unat (term_offset_of pub);
          n = unat (clean_length_of pub position);
          buf = mapped_raw_log_term_buffers pub ! i
      in d\<lparr>publication := pub
             \<lparr>mapped_raw_log_term_buffers :=
                (mapped_raw_log_term_buffers pub)[i := take off buf @ replicate n 0 @ drop (off + n) buf],
              clean_position := clean_position pub + clean_length_of pub position\<rparr>,
           ordered_stores := ordered_stores d @ [PutOrderedTermBuffer i off 0]\<rparr>)"

subsection \<open>\<open>aeron_ipc_publication_update_pub_lmt\<close>\<close>

text \<open>
  The scan of the subscribable array: the positions of the subscribers that are not
  resting, read in array order, lower \<open>min_sub_pos\<close> and raise \<open>max_sub_pos\<close>.
\<close>

fun scan_sub_pos :: "ipc_driver \<Rightarrow> aeron_tetherable_position list \<Rightarrow> int64 \<times> int64 \<Rightarrow> int64 \<times> int64" where
  "scan_sub_pos d [] (min_sub_pos, max_sub_pos) = (min_sub_pos, max_sub_pos)"
| "scan_sub_pos d (tetherable_position # rest) (min_sub_pos, max_sub_pos) =
     (if AERON_SUBSCRIPTION_TETHER_RESTING \<noteq> tether_state tetherable_position then
        let position = aeron_counter_get_volatile d (value_addr tetherable_position)
        in scan_sub_pos d rest
             (if position <s min_sub_pos then position else min_sub_pos,
              if max_sub_pos <s position then position else max_sub_pos)
      else scan_sub_pos d rest (min_sub_pos, max_sub_pos))"

definition aeron_ipc_publication_update_pub_lmt :: "ipc_driver \<Rightarrow> fault + (ipc_driver \<times> int32)" where
  "aeron_ipc_publication_update_pub_lmt d =
     (let pub = publication d
      in if 0 = List.length (subscribable pub) then Inr (d, 0)
         else
           case scan_sub_pos d (subscribable pub) (INT64_MAX, consumer_position pub) of
             (min_sub_pos, max_sub_pos) \<Rightarrow>
               if 0 = List.length (subscribable pub) then
                 let d1 = aeron_counter_set_ordered d (value_addr (pub_lmt_position pub)) max_sub_pos
                 in Inr (d1\<lparr>publication := (publication d1)\<lparr>trip_limit := max_sub_pos\<rparr>\<rparr>, 0)
               else
                 let proposed_limit = min_sub_pos + term_window_length pub
                 in if trip_limit pub <s proposed_limit then
                      case aeron_ipc_publication_clean_buffer d min_sub_pos of
                        Inl e \<Rightarrow> Inl e
                      | Inr d1 \<Rightarrow>
                          let d2 = aeron_counter_set_ordered d1 (value_addr (pub_lmt_position pub)) proposed_limit;
                              d3 = d2\<lparr>publication := (publication d2)
                                     \<lparr>trip_limit := proposed_limit + trip_gain pub\<rparr>\<rparr>
                          in Inr (d3\<lparr>publication := (publication d3)\<lparr>consumer_position := max_sub_pos\<rparr>\<rparr>, 1)
                    else Inr (d\<lparr>publication := pub\<lparr>consumer_position := max_sub_pos\<rparr>\<rparr>, 0))"

subsection \<open>\<open>aeron_ipc_publication_check_untethered_subscriptions\<close>\<close>

text \<open>
  The conductor, as far as this function uses it: the two timeouts of its context and
  the image notifications it has sent to clients. The channel arguments of the two
  notifications are the constant \<open>AERON_IPC_CHANNEL\<close> and are left out.
\<close>

datatype image_event =
  OnUnavailableImage int64 int64 int32
| OnAvailableImage int64 int32 int32 string int32 int64

record aeron_driver_conductor =
  untethered_window_limit_timeout_ns :: int64
  untethered_resting_timeout_ns :: int64
  image_events :: "image_event list"

definition aeron_driver_conductor_on_unavailable_image ::
    "aeron_driver_conductor \<Rightarrow> int64 \<Rightarrow> int64 \<Rightarrow> int32 \<Rightarrow> aeron_driver_conductor" where
  "aeron_driver_conductor_on_unavailable_image conductor pub_registration_id sub_registration_id pub_stream_id =
     conductor\<lparr>image_events := image_events conductor @
       [OnUnavailableImage pub_registration_id sub_registration_id pub_stream_id]\<rparr>"

definition aeron_driver_conductor_on_available_image ::
    "aeron_driver_conductor \<Rightarrow> int64 \<Rightarrow> int32 \<Rightarrow> int32 \<Rightarrow> string \<Rightarrow> int32 \<Rightarrow> int64 \<Rightarrow>
     aeron_driver_conductor" where
  "aeron_driver_conductor_on_available_image conductor pub_registration_id pub_stream_id pub_session_id
       log_file subscriber_position_id sub_registration_id =
     conductor\<lparr>image_events := image_events conductor @
       [OnAvailableImage pub_registration_id pub_stream_id pub_session_id log_file
          subscriber_position_id sub_registration_id]\<rparr>"

text \<open>
  The body of the loop, for one element of the subscribable array: the conductor, the
  memory and the element after it.
\<close>

definition check_tetherable_position ::
    "int64 \<Rightarrow> int64 \<Rightarrow> int64 \<Rightarrow> aeron_driver_conductor \<Rightarrow> ipc_driver \<Rightarrow> aeron_tetherable_position \<Rightarrow>
     aeron_driver_conductor \<times> ipc_driver \<times> aeron_tetherable_position" where
  "check_tetherable_position consumer_pos untethered_window_limit now_ns conductor d tetherable_position =
     (if is_tether tetherable_position then
        (conductor, d, tetherable_position\<lparr>time_of_last_update_ns := now_ns\<rparr>)
      else
        let window_limit_timeout_ns = untethered_window_limit_timeout_ns conductor;
            resting_timeout_ns = untethered_resting_timeout_ns conductor;
            pub = publication d
        in case tether_state tetherable_position of
             AERON_SUBSCRIPTION_TETHER_ACTIVE \<Rightarrow>
               if untethered_window_limit <s aeron_counter_get_volatile d (value_addr tetherable_position) then
                 (conductor, d, tetherable_position\<lparr>time_of_last_update_ns := now_ns\<rparr>)
               else if time_of_last_update_ns tetherable_position + window_limit_timeout_ns <s now_ns then
                 (aeron_driver_conductor_on_unavailable_image conductor
                    (registration_id pub) (subscription_registration_id tetherable_position) (stream_id pub),
                  d,
                  tetherable_position\<lparr>tether_state := AERON_SUBSCRIPTION_TETHER_LINGER,
                                       time_of_last_update_ns := now_ns\<rparr>)
               else (conductor, d, tetherable_position)
           | AERON_SUBSCRIPTION_TETHER_LINGER \<Rightarrow>
               if time_of_last_update_ns tetherable_position + window_limit_timeout_ns <s now_ns then
                 (conductor, d,
                  tetherable_position\<lparr>tether_state := AERON_SUBSCRIPTION_TETHER_RESTING,
                                       time_of_last_update_ns := now_ns\<rparr>)
               else (conductor, d, tetherable_position)
           | AERON_SUBSCRIPTION_TETHER_RESTING \<Rightarrow>
               if time_of_last_update_ns tetherable_position + resting_timeout_ns <s now_ns then
                 (aeron_driver_conductor_on_available_image conductor
                    (registration_id pub) (stream_id pub) (session_id pub) (log_file_name pub)
                    (counter_id tetherable_position) (subscription_registration_id tetherable_position),
                  aeron_counter_set_ordered d (value_addr tetherable_position) consumer_pos,
                  tetherable_position\<lparr>tether_state := AERON_SUBSCRIPTION_TETHER_ACTIVE,
                                       time_of_last_update_ns := now_ns\<rparr>)
               else (conductor, d, tetherable_position))"

text \<open>The loop over the array, in index order; the elements are updated in place.\<close>

fun check_tetherable_positions ::
    "int64 \<Rightarrow> int64 \<Rightarrow> int64 \<Rightarrow> aeron_driver_conductor \<Rightarrow> ipc_driver \<Rightarrow> aeron_tetherable_position list \<Rightarrow>
     aeron_driver_conductor \<times> ipc_driver \<times> aeron_tetherable_position list" where
  "check_tetherable_positions consumer_pos untethered_window_limit now_ns conductor d [] =
     (conductor, d, [])"
| "check_tetherable_positions consumer_pos untethered_window_limit now_ns conductor d
       (tetherable_position # rest) =
     (case check_tetherable_position consumer_pos untethered_window_limit now_ns conductor d
             tetherable_position of
        (conductor1, d1, tetherable_position1) \<Rightarrow>
          (case check_tetherable_positions consumer_pos untethered_window_limit now_ns conductor1 d1 rest of
             (conductor2, d2, rest2) \<Rightarrow> (conductor2, d2, tetherable_position1 # rest2)))"

definition untethered_window_limit_of :: "aeron_ipc_publication \<Rightarrow> int64" where
  "untethered_window_limit_of pub =
     (consumer_position pub - term_window_length pub) + c_div64 (term_window_length pub) 8"

definition aeron_ipc_publication_check_untethered_subscriptions ::
    "aeron_driver_conductor \<Rightarrow> ipc_driver \<Rightarrow> int64 \<Rightarrow> aeron_driver_conductor \<times> ipc_driver" where
  "aeron_ipc_publication_check_untethered_subscriptions conductor d now_ns =
     (let pub = publication d;
          consumer_position = consumer_position pub;
          untethered_window_limit = untethered_window_limit_of pub
      in case check_tetherable_positions consumer_position untethered_window_limit now_ns conductor d
                (subscribable pub) of
           (conductor1, d1, array1) \<Rightarrow>
             (conductor1, d1\<lparr>publication := (publication d1)\<lparr>subscribable := array1\<rparr>\<rparr>))"

subsection \<open>\<open>aeron_ipc_publication_incref\<close> and \<open>aeron_ipc_publication_decref\<close>\<close>

definition aeron_ipc_publication_incref :: "ipc_driver \<Rightarrow> ipc_driver" where
  "aeron_ipc_publication_incref d =
     d\<lparr>publication := (publication d)\<lparr>refcnt := refcnt (publication d) + 1\<rparr>\<rparr>"

text \<open>
  \<open>aeron_ipc_publication_producer_position\<close> is only declared in this source file
  (\<open>extern\<close>); its body is in a header that is not among the sources. It is the parameter
  \<open>producer_position\<close>, applied to the publication where the code calls it.
\<close>

definition aeron_ipc_publication_decref ::
    "(aeron_ipc_publication \<Rightarrow> int64) \<Rightarrow> ipc_driver \<Rightarrow> ipc_driver" where
  "aeron_ipc_publication_decref aeron_ipc_publication_producer_position d =
     (let ref_count = refcnt (publication d) - 1;
          d1 = d\<lparr>publication := (publication d)\<lparr>refcnt := ref_count\<rparr>\<rparr>
      in if 0 = ref_count then
           let d2 = d1\<lparr>publication := (publication d1)\<lparr>state := AERON_IPC_PUBLICATION_STATE_INACTIVE\<rparr>\<rparr>;
               producer_position = aeron_ipc_publication_producer_position (publication d2);
               d3 = (if producer_position <s aeron_counter_get d2 (value_addr (pub_lmt_position (publication d2)))
                     then aeron_counter_set_ordered d2 (value_addr (pub_lmt_position (publication d2)))
                            producer_position
                     else d2)
           in d3\<lparr>publication := (publication d3)
                   \<lparr>log_meta_data := (log_meta_data (publication d3))
                      \<lparr>end_of_stream_position := producer_position\<rparr>\<rparr>,
                 ordered_stores := ordered_stores d3 @ [PutOrderedEndOfStreamPosition producer_position]\<rparr>
         else d1)"

subsection \<open>\<open>aeron_ipc_publication_close\<close>\<close>

text \<open>
  The calls that release a resource, in program order. The publication pointer may be
  \<open>NULL\<close>: it is an option, and reading a field through \<open>NULL\<close> is a fault.
\<close>

datatype release =
  CountersManagerFree int32
| FreeSubscribableArray
| MapRawLogClose string
| FreeLogFileName
| FreePublication bool

definition deref :: "'a option \<Rightarrow> fault + 'a" where
  "deref p = (case p of None \<Rightarrow> Inl NullDereference | Some x \<Rightarrow> Inr x)"

text \<open>
  The first statement only takes the address of \<open>conductor_fields.subscribable\<close>; the
  second reads \<open>publication->pub_lmt_position.counter_id\<close>. \<open>FreePublication b\<close> is
  \<open>aeron_free(publication)\<close>, with \<open>b\<close> telling whether the pointer was not \<open>NULL\<close>.
\<close>

definition aeron_ipc_publication_close :: "aeron_ipc_publication option \<Rightarrow> fault + release list" where
  "aeron_ipc_publication_close publication_ptr =
     (case deref publication_ptr of
        Inl e \<Rightarrow> Inl e
      | Inr pub \<Rightarrow>
          Inr ([CountersManagerFree (counter_id (pub_lmt_position pub)),
                CountersManagerFree (counter_id (pub_pos_position pub))] @
               map (\<lambda>tetherable_position. CountersManagerFree (counter_id tetherable_position))
                 (subscribable pub) @
               [FreeSubscribableArray] @
               (if None \<noteq> publication_ptr then [MapRawLogClose (log_file_name pub), FreeLogFileName] else []) @
               [FreePublication (None \<noteq> publication_ptr)]))"

subsection \<open>\<open>aeron_ipc_publication_create\<close>\<close>

text \<open>
  The publication parameters and the driver context, with the fields the constructor
  reads. Their declarations are not among the sources: \<open>term_id\<close> is an \<open>int32_t\<close> as
  the term ids of the spec are, and the lengths and the offset are \<open>size_t\<close> (the
  constructor casts them to \<open>int32_t\<close>).
\<close>

record aeron_uri_publication_params =
  params_is_replay :: bool
  params_is_sparse :: bool
  params_term_id :: int32
  params_term_offset :: size_t
  params_term_length :: size_t
  params_mtu_length :: size_t

record aeron_driver_context =
  context_file_page_size :: size_t
  context_publication_unblock_timeout_ns :: "64 word"

text \<open>What \<open>map_raw_log_func\<close> maps: the term buffers, the term length and the meta data.\<close>

record aeron_mapped_raw_log =
  mapped_term_buffers :: "byte list list"
  mapped_term_length :: size_t
  mapped_log_meta_data :: aeron_logbuffer_metadata

text \<open>
  The constructor calls functions of the context (\<open>usable_fs_space_func\<close>,
  \<open>nano_clock\<close>, \<open>map_raw_log_func\<close>) and helpers whose bodies are not among the sources
  (\<open>aeron_ipc_publication_location\<close>, \<open>aeron_logbuffer_compute_log_length\<close>,
  \<open>aeron_alloc\<close>, \<open>aeron_number_of_trailing_zeroes\<close>, \<open>aeron_producer_window_length\<close>).
  Each is called once; what it returns is a parameter of the model. The two allocations
  succeed when their flag is true, and \<open>map_raw_log_func\<close> gives the mapped log or an
  error code.
\<close>

record create_calls =
  call_location :: string
  call_usable_fs_space :: "64 word"
  call_compute_log_length :: "64 word"
  call_nano_clock :: int64
  call_alloc_publication :: bool
  call_alloc_log_file_name :: bool
  call_map_raw_log :: "int32 + aeron_mapped_raw_log"
  call_number_of_trailing_zeroes :: int32
  call_producer_window_length :: size_t

datatype create_error = ENOSPC | ENOMEM | MapRawLogError int32 | Fault fault

text \<open>A store to an array element; an index outside the array is a fault.\<close>

definition array_store :: "'a list \<Rightarrow> size_t \<Rightarrow> 'a \<Rightarrow> fault + 'a list" where
  "array_store xs i v = (if unat i < length xs then Inr (xs[unat i := v]) else Inl OutOfBounds)"

text \<open>
  The loop of the replay branch, \<open>i\<close> running over \<open>1 ..< AERON_LOGBUFFER_PARTITION_COUNT\<close>:
  \<open>term_id\<close> is an \<open>int64_t\<close> and \<open>active_index\<close> a \<open>size_t\<close>.
\<close>

fun replay_tail_counters_loop :: "int64 \<Rightarrow> nat list \<Rightarrow> size_t \<Rightarrow> int64 list \<Rightarrow> fault + int64 list" where
  "replay_tail_counters_loop term_id [] active_index tails = Inr tails"
| "replay_tail_counters_loop term_id (i # rest) active_index tails =
     (let expected_term_id = (term_id + word_of_nat i) - word_of_nat AERON_LOGBUFFER_PARTITION_COUNT;
          active_index1 = (active_index + 1) mod word_of_nat AERON_LOGBUFFER_PARTITION_COUNT
      in case array_store tails active_index1 (expected_term_id * push_bit 32 1) of
           Inl e \<Rightarrow> Inl e
         | Inr tails1 \<Rightarrow> replay_tail_counters_loop term_id rest active_index1 tails1)"

text \<open>
  The loop of the other branch: \<open>(initial_term_id + i) - AERON_LOGBUFFER_PARTITION_COUNT\<close>
  is computed in \<open>int32_t\<close> and then widened to \<open>int64_t\<close>.
\<close>

fun initial_tail_counters_loop :: "int32 \<Rightarrow> nat list \<Rightarrow> int64 list \<Rightarrow> fault + int64 list" where
  "initial_tail_counters_loop init_term_id [] tails = Inr tails"
| "initial_tail_counters_loop init_term_id (i # rest) tails =
     (let expected_term_id =
            (scast ((init_term_id + word_of_nat i) - word_of_nat AERON_LOGBUFFER_PARTITION_COUNT) :: int64)
      in case array_store tails (word_of_nat i) (expected_term_id * push_bit 32 1) of
           Inl e \<Rightarrow> Inl e
         | Inr tails1 \<Rightarrow> initial_tail_counters_loop init_term_id rest tails1)"

text \<open>The branch \<open>if (params->is_replay) ... else ...\<close>, on the meta data.\<close>

definition init_log_meta_data ::
    "aeron_uri_publication_params \<Rightarrow> int32 \<Rightarrow> aeron_logbuffer_metadata \<Rightarrow> fault + aeron_logbuffer_metadata" where
  "init_log_meta_data params init_term_id meta =
     (if params_is_replay params then
        let term_id = (scast (params_term_id params) :: int64);
            term_count = params_term_id params - init_term_id;
            active_index = aeron_logbuffer_index_by_term_count term_count
        in case array_store (term_tail_counters meta) active_index
                  ((term_id * push_bit 32 1) OR params_term_offset params) of
             Inl e \<Rightarrow> Inl e
           | Inr tails \<Rightarrow>
              (case replay_tail_counters_loop term_id [1 ..< AERON_LOGBUFFER_PARTITION_COUNT]
                      active_index tails of
                 Inl e \<Rightarrow> Inl e
               | Inr tails1 \<Rightarrow> Inr (meta\<lparr>term_tail_counters := tails1, active_term_count := term_count\<rparr>))
      else
        case array_store (term_tail_counters meta) 0 ((scast init_term_id :: int64) * push_bit 32 1) of
          Inl e \<Rightarrow> Inl e
        | Inr tails \<Rightarrow>
           (case initial_tail_counters_loop init_term_id [1 ..< AERON_LOGBUFFER_PARTITION_COUNT] tails of
              Inl e \<Rightarrow> Inl e
            | Inr tails1 \<Rightarrow> Inr (meta\<lparr>term_tail_counters := tails1, active_term_count := 0\<rparr>)))"

text \<open>
  The constructor. \<open>producer_position\<close> stands for
  \<open>aeron_ipc_publication_producer_position\<close>, as in \<open>aeron_ipc_publication_decref\<close>; it is
  called when every field but the three positions it initialises is assigned (they are
  zero here until then). The function pointers the constructor stores, the default
  header that \<open>aeron_logbuffer_fill_default_header\<close> writes and the address of the
  unblocked publications counter have no field in the model.
\<close>

definition aeron_ipc_publication_create ::
    "(aeron_ipc_publication \<Rightarrow> int64) \<Rightarrow> create_calls \<Rightarrow> aeron_driver_context \<Rightarrow> int32 \<Rightarrow> int32 \<Rightarrow> int64 \<Rightarrow>
     aeron_position \<Rightarrow> aeron_position \<Rightarrow> int32 \<Rightarrow> aeron_uri_publication_params \<Rightarrow> bool \<Rightarrow>
     create_error + aeron_ipc_publication" where
  "aeron_ipc_publication_create =
     (\<lambda>producer_position calls context session_id stream_id registration_id
        pub_pos_position pub_lmt_position initial_term_id params is_exclusive.
      let path = call_location calls;
          usable_fs_space = call_usable_fs_space calls;
          log_length = call_compute_log_length calls;
          now_ns = call_nano_clock calls
      in if usable_fs_space < log_length then Inl ENOSPC
         else if \<not> call_alloc_publication calls then Inl ENOMEM
         else if \<not> call_alloc_log_file_name calls then Inl ENOMEM
         else
           case call_map_raw_log calls of
             Inl errcode \<Rightarrow> Inl (MapRawLogError errcode)
           | Inr mapped_raw_log \<Rightarrow>
              (case init_log_meta_data params initial_term_id (mapped_log_meta_data mapped_raw_log) of
                 Inl e \<Rightarrow> Inl (Fault e)
               | Inr meta \<Rightarrow>
                   let meta1 = meta
                         \<lparr>active_term_count := 0,
                          initial_term_id := initial_term_id,
                          mtu_length := ucast (params_mtu_length params),
                          term_length := ucast (params_term_length params),
                          page_size := ucast (context_file_page_size context),
                          correlation_id := registration_id,
                          is_connected := 0,
                          active_transport_count := 0,
                          end_of_stream_position := INT64_MAX\<rparr>;
                       window_length = call_producer_window_length calls;
                       pub = \<lparr>log_meta_data = meta1,
                              mapped_raw_log_term_buffers = mapped_term_buffers mapped_raw_log,
                              mapped_raw_log_term_length = mapped_term_length mapped_raw_log,
                              log_file_name = path,
                              subscribable = [],
                              registration_id = registration_id,
                              has_reached_end_of_life = False,
                              trip_limit = 0,
                              time_of_last_consumer_position_change = now_ns,
                              state = AERON_IPC_PUBLICATION_STATE_ACTIVE,
                              refcnt = 1,
                              consumer_position = 0,
                              last_consumer_position = 0,
                              clean_position = 0,
                              session_id = session_id,
                              stream_id = stream_id,
                              pub_lmt_position = pub_lmt_position,
                              pub_pos_position = pub_pos_position,
                              pub_initial_term_id = initial_term_id,
                              position_bits_to_shift = scast (call_number_of_trailing_zeroes calls),
                              term_window_length = window_length,
                              trip_gain = c_div64 window_length 8,
                              unblock_timeout_ns = context_publication_unblock_timeout_ns context,
                              is_exclusive = is_exclusive\<rparr>;
                       pub1 = pub\<lparr>consumer_position := producer_position pub\<rparr>;
                       pub2 = pub1\<lparr>last_consumer_position := consumer_position pub1\<rparr>
                   in Inr (pub2\<lparr>clean_position := consumer_position pub2\<rparr>)))"

section \<open>ReplayMerge\<close>

text \<open>
  Modelled from the spec: \<open>Image\<close> belongs to the client library, which is not among the
  sources. The model keeps the fragments the image has ready and its active transport
  count; \<open>Image_poll\<close> follows "polls that image for up to \<open>limit\<close> fragments" and gives
  the number of fragments, the image after them and the fragments handed to the handler.
\<close>

type_synonym fragment = "byte list"

record Image =
  fragments :: "fragment list"
  activeTransportCount :: int32

definition Image_poll :: "Image \<Rightarrow> int32 \<Rightarrow> int32 \<times> Image \<times> fragment list" where
  "Image_poll img fragmentLimit =
     (let n = min (nat (sint fragmentLimit)) (length (fragments img))
      in (word_of_nat n, img\<lparr>fragments := drop n (fragments img)\<rparr>, take n (fragments img)))"

datatype State =
  GET_RECORDING_POSITION
| REPLAY
| CATCHUP
| ATTEMPT_LIVE_JOIN
| STOP_REPLAY
| MERGED
| CLOSED

text \<open>
  The mutable members of \<open>ReplayMerge\<close>. \<open>m_image\<close> is a shared pointer that starts as
  \<open>nullptr\<close>: an option.
\<close>

record ReplayMerge =
  m_state :: State
  m_image :: "Image option"
  m_activeCorrelationId :: int64
  m_nextTargetPosition :: int64
  m_replaySessionId :: int64
  m_isLiveAdded :: bool
  m_isReplayActive :: bool

text \<open>
  The five member functions that \<open>doWork\<close> dispatches to are declared in the header and
  defined in a source file that is not among the sources; they are parameters, each
  giving its work count and the object after the call.
\<close>

record merge_steps =
  getRecordingPosition :: "ReplayMerge \<Rightarrow> int32 \<times> ReplayMerge"
  replay :: "ReplayMerge \<Rightarrow> int32 \<times> ReplayMerge"
  catchup :: "ReplayMerge \<Rightarrow> int32 \<times> ReplayMerge"
  attemptLiveJoin :: "ReplayMerge \<Rightarrow> int32 \<times> ReplayMerge"
  stopReplay :: "ReplayMerge \<Rightarrow> int32 \<times> ReplayMerge"

definition REPLAY_MERGE_REPLAY_REMOVE_THRESHOLD :: int64 where
  "REPLAY_MERGE_REPLAY_REMOVE_THRESHOLD = 0"

definition doWork :: "merge_steps \<Rightarrow> ReplayMerge \<Rightarrow> int32 \<times> ReplayMerge" where
  "doWork steps this =
     (let workCount = (0 :: int32)
      in case m_state this of
           GET_RECORDING_POSITION \<Rightarrow>
             (case getRecordingPosition steps this of (n, this1) \<Rightarrow> (workCount + n, this1))
         | REPLAY \<Rightarrow>
             (case replay steps this of (n, this1) \<Rightarrow> (workCount + n, this1))
         | CATCHUP \<Rightarrow>
             (case catchup steps this of (n, this1) \<Rightarrow> (workCount + n, this1))
         | ATTEMPT_LIVE_JOIN \<Rightarrow>
             (case attemptLiveJoin steps this of (n, this1) \<Rightarrow> (workCount + n, this1))
         | STOP_REPLAY \<Rightarrow>
             (case stopReplay steps this of (n, this1) \<Rightarrow> (workCount + n, this1))
         | _ \<Rightarrow> (workCount, this))"

text \<open>
  \<open>poll\<close> gives the number of fragments, the object after the call and the fragments
  handed to \<open>fragmentHandler\<close>, in order.
\<close>

definition poll :: "merge_steps \<Rightarrow> ReplayMerge \<Rightarrow> int32 \<Rightarrow> int32 \<times> ReplayMerge \<times> fragment list" where
  "poll steps this fragmentLimit =
     (case doWork steps this of
        (workCount, this1) \<Rightarrow>
          (case m_image this1 of
             None \<Rightarrow> (0, this1, [])
           | Some img \<Rightarrow>
               (case Image_poll img fragmentLimit of
                  (n, img1, handled) \<Rightarrow> (n, this1\<lparr>m_image := Some img1\<rparr>, handled))))"

definition isMerged :: "ReplayMerge \<Rightarrow> bool" where
  "isMerged this = (m_state this = MERGED)"

definition isLiveAdded :: "ReplayMerge \<Rightarrow> bool" where
  "isLiveAdded this = m_isLiveAdded this"

text \<open>
  \<open>&&\<close> evaluates its right operand only when the left one is true, so \<open>m_image\<close> is
  dereferenced only when the first two conjuncts hold; a null \<open>m_image\<close> there is a fault.
\<close>

definition shouldStopAndRemoveReplay :: "ReplayMerge \<Rightarrow> int64 \<Rightarrow> fault + bool" where
  "shouldStopAndRemoveReplay this position =
     (if m_isLiveAdded this then
        if (m_nextTargetPosition this - position) \<le>s REPLAY_MERGE_REPLAY_REMOVE_THRESHOLD then
          case deref (m_image this) of
            Inl e \<Rightarrow> Inl e
          | Inr img \<Rightarrow> Inr (2 \<le>s activeTransportCount img)
        else Inr False
      else Inr False)"

section \<open>Example data\<close>

text \<open>
  A publication as the constructor leaves it for a term length of 64 KiB and initial
  term id 0, with a window of half a term, and a memory holding it where every counter
  is zero.
\<close>

definition example_meta_data :: aeron_logbuffer_metadata where
  "example_meta_data =
     \<lparr>term_tail_counters = [0, 0xFFFFFFFE00000000, 0xFFFFFFFF00000000],
      active_term_count = 0, initial_term_id = 0, mtu_length = 1408, term_length = 65536,
      page_size = 4096, correlation_id = 7, is_connected = 0, active_transport_count = 0,
      end_of_stream_position = INT64_MAX\<rparr>"

definition example_term_buffer :: "byte list" where
  "example_term_buffer = replicate 65536 0xFF"

definition example_publication :: aeron_ipc_publication where
  "example_publication =
     \<lparr>log_meta_data = example_meta_data,
      mapped_raw_log_term_buffers = [example_term_buffer, example_term_buffer, example_term_buffer],
      mapped_raw_log_term_length = 65536,
      log_file_name = ''ipc-1-1001-7.logbuffer'',
      subscribable = [],
      registration_id = 7,
      has_reached_end_of_life = False,
      trip_limit = 0,
      time_of_last_consumer_position_change = 0,
      state = AERON_IPC_PUBLICATION_STATE_ACTIVE,
      refcnt = 1,
      consumer_position = 0,
      last_consumer_position = 0,
      clean_position = 0,
      session_id = 1,
      stream_id = 1001,
      pub_lmt_position = \<lparr>counter_id = 10, value_addr = 10\<rparr>,
      pub_pos_position = \<lparr>counter_id = 11, value_addr = 11\<rparr>,
      pub_initial_term_id = 0,
      position_bits_to_shift = 16,
      term_window_length = 32768,
      trip_gain = 4096,
      unblock_timeout_ns = 10000000000,
      is_exclusive = False\<rparr>"

definition example_driver :: ipc_driver where
  "example_driver = \<lparr>counters = (\<lambda>a. 0), publication = example_publication, ordered_stores = []\<rparr>"

text \<open>
  A merge that has its image and has added the live destination, and step functions of
  which only \<open>catchup\<close> does something: it acquires the image.
\<close>

definition example_image :: Image where
  "example_image = \<lparr>fragments = [[1, 2, 3], [4, 5], [6]], activeTransportCount = 1\<rparr>"

definition example_merge :: ReplayMerge where
  "example_merge =
     \<lparr>m_state = ATTEMPT_LIVE_JOIN, m_image = Some example_image, m_activeCorrelationId = - 1,
      m_nextTargetPosition = 10050, m_replaySessionId = 5, m_isLiveAdded = True,
      m_isReplayActive = True\<rparr>"

definition example_steps :: merge_steps where
  "example_steps =
     \<lparr>getRecordingPosition = (\<lambda>this. (0, this)),
      replay = (\<lambda>this. (0, this)),
      catchup = (\<lambda>this. (1, this\<lparr>m_state := ATTEMPT_LIVE_JOIN, m_image := Some example_image\<rparr>)),
      attemptLiveJoin = (\<lambda>this. (0, this)),
      stopReplay = (\<lambda>this. (0, this))\<rparr>"

text \<open>
  A memory whose only subscriber is resting: the consumer position is 8192, and the
  publication limit 32768 and the trip limit 36864 are those of an earlier update.
\<close>

definition resting_position :: aeron_tetherable_position where
  "resting_position =
     \<lparr>counter_id = 12, value_addr = 12, is_tether = False,
      tether_state = AERON_SUBSCRIPTION_TETHER_RESTING,
      subscription_registration_id = 21, time_of_last_update_ns = 0\<rparr>"

definition all_resting_driver :: ipc_driver where
  "all_resting_driver =
     \<lparr>counters = (\<lambda>a. 0)(10 := 32768, 12 := 4096),
      publication = example_publication
        \<lparr>subscribable := [resting_position], consumer_position := 8192, trip_limit := 36864\<rparr>,
      ordered_stores = []\<rparr>"

text \<open>
  What the constructor gets from its context and helpers for a term length of 64 KiB, and
  replay parameters for term id 7 at offset 4096 (the initial term id will be 5).
\<close>

definition example_calls :: create_calls where
  "example_calls =
     \<lparr>call_location = ''ipc-1-1001-7.logbuffer'',
      call_usable_fs_space = 1073741824,
      call_compute_log_length = 200704,
      call_nano_clock = 0,
      call_alloc_publication = True,
      call_alloc_log_file_name = True,
      call_map_raw_log =
        Inr \<lparr>mapped_term_buffers = [example_term_buffer, example_term_buffer, example_term_buffer],
             mapped_term_length = 65536,
             mapped_log_meta_data = example_meta_data\<lparr>term_tail_counters := [0, 0, 0]\<rparr>\<rparr>,
      call_number_of_trailing_zeroes = 16,
      call_producer_window_length = 32768\<rparr>"

definition example_context :: aeron_driver_context where
  "example_context =
     \<lparr>context_file_page_size = 4096, context_publication_unblock_timeout_ns = 10000000000\<rparr>"

definition replay_params :: aeron_uri_publication_params where
  "replay_params =
     \<lparr>params_is_replay = True, params_is_sparse = False, params_term_id = 7,
      params_term_offset = 4096, params_term_length = 65536, params_mtu_length = 1408\<rparr>"

text \<open>
  The scenario of the spec for the publication limit: a single tethered subscriber at
  position 0, a window of 1024 and a trip gain of 128, on a fresh publication.
\<close>

definition tethered_position :: aeron_tetherable_position where
  "tethered_position =
     \<lparr>counter_id = 12, value_addr = 12, is_tether = True,
      tether_state = AERON_SUBSCRIPTION_TETHER_ACTIVE,
      subscription_registration_id = 21, time_of_last_update_ns = 0\<rparr>"

definition single_tethered_driver :: ipc_driver where
  "single_tethered_driver =
     example_driver\<lparr>publication := example_publication
       \<lparr>subscribable := [tethered_position], term_window_length := 1024, trip_gain := 128\<rparr>\<rparr>"

text \<open>
  The fresh example publication with a single tethered subscriber at position 4096,
  inside the first term, and the memory after the publication limit has been updated;
  and the same with the subscriber at position 100000, beyond the end of the first
  term.
\<close>

definition advancing_driver :: ipc_driver where
  "advancing_driver =
     \<lparr>counters = (\<lambda>a. 0)(12 := 4096),
      publication = example_publication\<lparr>subscribable := [tethered_position]\<rparr>,
      ordered_stores = []\<rparr>"

definition advanced_driver :: ipc_driver where
  "advanced_driver =
     \<lparr>counters = (\<lambda>a. 0)(12 := 4096, 10 := 36864),
      publication = example_publication
        \<lparr>subscribable := [tethered_position],
         mapped_raw_log_term_buffers :=
           [replicate 4096 0 @ replicate 61440 0xFF, example_term_buffer, example_term_buffer],
         clean_position := 4096,
         trip_limit := 40960,
         consumer_position := 4096\<rparr>,
      ordered_stores = [PutOrderedTermBuffer 0 0 0, CounterSetOrdered 10 36864]\<rparr>"

definition crossing_driver :: ipc_driver where
  "crossing_driver =
     \<lparr>counters = (\<lambda>a. 0)(12 := 100000),
      publication = example_publication\<lparr>subscribable := [tethered_position]\<rparr>,
      ordered_stores = []\<rparr>"

definition crossed_driver :: ipc_driver where
  "crossed_driver =
     \<lparr>counters = (\<lambda>a. 0)(12 := 100000, 10 := 132768),
      publication = example_publication
        \<lparr>subscribable := [tethered_position],
         mapped_raw_log_term_buffers := [replicate 65536 0, example_term_buffer, example_term_buffer],
         clean_position := 65536,
         trip_limit := 136864,
         consumer_position := 100000\<rparr>,
      ordered_stores = [PutOrderedTermBuffer 0 0 0, CounterSetOrdered 10 132768]\<rparr>"

text \<open>
  An untethered, active subscriber whose position is exactly the window limit: the
  consumer position is 65536, the window 32768 and the trip gain 4096, which puts the
  limit at 36864. The conductor has a window limit timeout of five seconds.
\<close>

definition at_limit_position :: aeron_tetherable_position where
  "at_limit_position =
     \<lparr>counter_id = 12, value_addr = 12, is_tether = False,
      tether_state = AERON_SUBSCRIPTION_TETHER_ACTIVE,
      subscription_registration_id = 21, time_of_last_update_ns = 0\<rparr>"

definition at_limit_driver :: ipc_driver where
  "at_limit_driver =
     \<lparr>counters = (\<lambda>a. 0)(12 := 36864),
      publication = example_publication\<lparr>subscribable := [at_limit_position], consumer_position := 65536\<rparr>,
      ordered_stores = []\<rparr>"

definition example_conductor :: aeron_driver_conductor where
  "example_conductor =
     \<lparr>untethered_window_limit_timeout_ns = 5000000000,
      untethered_resting_timeout_ns = 10000000000,
      image_events = []\<rparr>"




section \<open>The constructor in replay mode\<close>

text \<open>
  Stepping \<open>active_index\<close> once or twice modulo the partition count never comes back to
  the index it started from, so the loop of the replay branch leaves the counter of the
  active index alone.
\<close>

lemma next_index_neq: "(w + 1) mod 3 \<noteq> (w :: 64 word)"
proof
  assume a: "(w + 1) mod 3 = w"
  have "unat ((w + 1) mod 3) < 3"
    by (simp add: unat_mod)
  with a have w3: "unat w < 3" by simp
  then have "unat (w + 1) = unat w + 1"
    by (simp add: unat_word_ariths)
  then have "unat ((w + 1) mod 3) = (unat w + 1) mod 3"
    by (simp add: unat_mod)
  with a have "(unat w + 1) mod 3 = unat w" by simp
  with w3 show False by presburger
qed

lemma next_next_index_neq: "((w + 1) mod 3 + 1) mod 3 \<noteq> (w :: 64 word)"
proof
  assume a: "((w + 1) mod 3 + 1) mod 3 = w"
  have "unat (((w + 1) mod 3 + 1) mod 3) < 3"
    by (simp add: unat_mod)
  with a have w3: "unat w < 3" by simp
  then have "unat (w + 1) = unat w + 1"
    by (simp add: unat_word_ariths)
  then have b: "unat ((w + 1) mod 3) = (unat w + 1) mod 3"
    by (simp add: unat_mod)
  then have "unat ((w + 1) mod 3 + 1) = (unat w + 1) mod 3 + 1"
    by (simp add: unat_word_ariths)
  then have "unat (((w + 1) mod 3 + 1) mod 3) = ((unat w + 1) mod 3 + 1) mod 3"
    by (simp add: unat_mod)
  with a have "((unat w + 1) mod 3 + 1) mod 3 = unat w" by simp
  with w3 show False by presburger
qed

text \<open>
  The replay branch by itself does what the spec says of replay-init: the counter at the
  active index is \<open>(term_id << 32) | term_offset\<close> and \<open>active_term_count\<close> is
  \<open>term_id - initial_term_id\<close>.
\<close>

lemma init_log_meta_data_replay:
  assumes "params_is_replay params"
    and "init_log_meta_data params init_term_id meta = Inr meta1"
  shows "term_tail_counters meta1 !
           unat (aeron_logbuffer_index_by_term_count (params_term_id params - init_term_id)) =
           push_bit 32 (scast (params_term_id params)) OR params_term_offset params \<and>
         active_term_count meta1 = params_term_id params - init_term_id"
  using assms next_index_neq [of "aeron_logbuffer_index_by_term_count (params_term_id params - init_term_id)"]
    next_next_index_neq [of "aeron_logbuffer_index_by_term_count (params_term_id params - init_term_id)"]
  apply (simp add: init_log_meta_data_def Let_def AERON_LOGBUFFER_PARTITION_COUNT_def upt_rec
      array_store_def split: if_splits sum.splits)
  apply (auto simp: push_bit_eq_mult mult.commute word_unat_eq_iff)
  done

text \<open>
  The statement after the branch assigns \<open>active_term_count = 0\<close> whatever the branch
  did, so a publication that the constructor returns always has the count 0.
\<close>

lemma create_active_term_count:
  "aeron_ipc_publication_create producer_position calls ctx sid stid rid pp pl init_term_id params excl =
     Inr pub \<Longrightarrow> active_term_count (log_meta_data pub) = 0"
  by (auto simp: aeron_ipc_publication_create_def Let_def split: if_splits sum.splits)

lemma init_log_meta_data_replay_example:
  "init_log_meta_data replay_params 5 (example_meta_data\<lparr>term_tail_counters := [0, 0, 0]\<rparr>) =
     Inr (example_meta_data\<lparr>term_tail_counters := [0x500000000, 0x600000000, 0x700001000],
                            active_term_count := 2\<rparr>)"
  by (simp add: init_log_meta_data_def replay_params_def Let_def aeron_logbuffer_index_by_term_count_def
     c_rem32_def AERON_LOGBUFFER_PARTITION_COUNT_def array_store_def upt_rec example_meta_data_def)

text \<open>
  C2. The claim: after a successful construction in replay-init mode,
  \<open>activeTermCount = termId - initialTermId\<close> and the tail counter at the active index is
  \<open>(termId << 32) | termOffset\<close>. For term id 7, offset 4096 and initial term id 5 the
  term count is 2 and the active index 2. The constructor returns a publication whose
  tail counter at index 2 is \<open>(7 << 32) | 4096\<close>, as claimed, but whose
  \<open>active_term_count\<close> is 0, not 2.
\<close>

theorem create_replay_example:
  "map_sum id (\<lambda>pub. (active_term_count (log_meta_data pub), term_tail_counters (log_meta_data pub)))
     (aeron_ipc_publication_create (\<lambda>pub. 135168) example_calls example_context 1 1001 7
        \<lparr>counter_id = 11, value_addr = 11\<rparr> \<lparr>counter_id = 10, value_addr = 10\<rparr> 5 replay_params False) =
   Inr (0, [0x500000000, 0x600000000, 0x700001000]) \<and>
   params_term_id replay_params - 5 = 2 \<and>
   aeron_logbuffer_index_by_term_count 2 = 2"
  by (simp add: aeron_ipc_publication_create_def init_log_meta_data_replay_example example_calls_def Let_def)
     (simp add: replay_params_def aeron_logbuffer_index_by_term_count_def c_rem32_def
        AERON_LOGBUFFER_PARTITION_COUNT_def)

section \<open>Closing a publication\<close>

text \<open>
  C3. The claim: closing with a null publication pointer is a no-op, with no free, no
  counter released and nothing unmapped. The code reads
  \<open>publication->pub_lmt_position.counter_id\<close> before its test \<open>NULL != publication\<close>, so
  with a null pointer the call faults on that read and releases nothing in an orderly
  way.
\<close>

theorem close_null_faults: "aeron_ipc_publication_close None = Inl NullDereference"
  by (simp add: aeron_ipc_publication_close_def deref_def)

section \<open>Cleaning the buffer\<close>

text \<open>
  The \<open>memset\<close> of all but the first eight bytes followed by the store of the first
  eight clears the whole range; and a \<open>memset\<close> whose length has wrapped around below
  zero does not fit a buffer of less than \<open>2 ^ 64\<close> bytes.
\<close>

lemma memset_zero_twice:
  assumes "memset_zero buf (off + 8) (n - 8) = Inr buf1" and "8 \<le> n"
  shows "memset_zero buf1 off 8 = Inr (take off buf @ replicate n 0 @ drop (off + n) buf)"
proof -
  from assms have le: "off + n \<le> length buf"
    and buf1: "buf1 = take (off + 8) buf @ replicate (n - 8) 0 @ drop (off + n) buf"
    by (auto simp: memset_zero_def split: if_splits)
  have len: "length buf1 = length buf"
    using le assms(2) by (simp add: buf1)
  have t: "take off buf1 = take off buf"
    using le assms(2) by (simp add: buf1 min_def)
  have d: "drop (off + 8) buf1 = replicate (n - 8) 0 @ drop (off + n) buf"
    using le assms(2) by (simp add: buf1 min_def)
  have r: "replicate 8 (0::byte) @ replicate (n - 8) 0 = replicate n 0"
    using assms(2) by (simp add: replicate_add [symmetric])
  show ?thesis
    using le assms(2) len by (simp add: memset_zero_def t d r [symmetric])
qed




lemma clean_buffer_not_above:
  "\<not> clean_position (publication d) <s position \<Longrightarrow> aeron_ipc_publication_clean_buffer d position = Inr d"
  by (simp add: aeron_ipc_publication_clean_buffer_def Let_def)



text \<open>
  A call with a position above the clean position returns when the dirty index is in
  range, every term buffer has \<open>term_length\<close> bytes, the term length is not zero and at
  least eight bytes are cleared; its result is the memory the spec asks for.
\<close>

lemma term_offset_plus_length:
  assumes nz: "mapped_raw_log_term_length pub \<noteq> 0"
  shows "unat (term_offset_of pub) + unat (clean_length_of pub position) \<le> unat (mapped_raw_log_term_length pub)"
proof -
  let ?tl = "mapped_raw_log_term_length pub"
  have "term_offset_of pub \<le> ?tl - 1"
    unfolding term_offset_of_def by (rule word_and_le1)
  moreover have "?tl - 1 < ?tl"
    using nz by (simp add: word_less_nat_alt unat_minus_one unat_gt_0)
  ultimately have lt: "term_offset_of pub \<le> ?tl" by simp
  then have sub: "unat (?tl - term_offset_of pub) = unat ?tl - unat (term_offset_of pub)"
    by (simp add: unat_sub)
  have "clean_length_of pub position \<le> ?tl - term_offset_of pub"
    by (auto simp: clean_length_of_def Let_def)
  then have "unat (clean_length_of pub position) \<le> unat ?tl - unat (term_offset_of pub)"
    using sub by (simp add: word_le_nat_alt)
  moreover from lt have "unat (term_offset_of pub) \<le> unat ?tl"
    by (simp add: word_le_nat_alt)
  ultimately show ?thesis by simp
qed

lemma clean_buffer_unfold:
  assumes "clean_position (publication d) <s position"
  shows "aeron_ipc_publication_clean_buffer d position =
     (if dirty_index_of (publication d) < length (mapped_raw_log_term_buffers (publication d)) then
        case memset_zero (mapped_raw_log_term_buffers (publication d) ! dirty_index_of (publication d))
               (unat (term_offset_of (publication d)) + 8)
               (unat (clean_length_of (publication d) position - 8)) of
          Inl e \<Rightarrow> Inl e
        | Inr buf1 \<Rightarrow>
           (case memset_zero buf1 (unat (term_offset_of (publication d))) 8 of
              Inl e \<Rightarrow> Inl e
            | Inr buf2 \<Rightarrow>
                Inr (d\<lparr>publication := (publication d)
                         \<lparr>mapped_raw_log_term_buffers :=
                            (mapped_raw_log_term_buffers (publication d))[dirty_index_of (publication d) := buf2],
                          clean_position := clean_position (publication d) +
                            clean_length_of (publication d) position\<rparr>,
                       ordered_stores := ordered_stores d @
                         [PutOrderedTermBuffer (dirty_index_of (publication d))
                            (unat (term_offset_of (publication d))) 0]\<rparr>))
      else Inl OutOfBounds)"
  unfolding aeron_ipc_publication_clean_buffer_def dirty_index_of_def term_offset_of_def
    clean_length_of_def Let_def
  using assms by (simp only: if_True)

lemma clean_buffer_returns:
  assumes above: "clean_position (publication d) <s position"
    and idx: "dirty_index_of (publication d) < length (mapped_raw_log_term_buffers (publication d))"
    and wf: "\<forall>buf \<in> set (mapped_raw_log_term_buffers (publication d)).
               length buf = unat (mapped_raw_log_term_length (publication d))"
    and nz: "mapped_raw_log_term_length (publication d) \<noteq> 0"
    and l8: "8 \<le> clean_length_of (publication d) position"
  shows "aeron_ipc_publication_clean_buffer d position = Inr (cleaned_up_to d position)"
proof -
  let ?pub = "publication d"
  let ?bufs = "mapped_raw_log_term_buffers ?pub"
  let ?i = "dirty_index_of ?pub"
  let ?off = "unat (term_offset_of ?pub)"
  let ?len = "clean_length_of ?pub position"
  from idx wf have lb: "length (?bufs ! ?i) = unat (mapped_raw_log_term_length ?pub)"
    by simp
  from l8 have u8: "unat (?len - 8) = unat ?len - 8" and n8: "8 \<le> unat ?len"
    by (simp_all add: unat_sub word_le_nat_alt)
  from term_offset_plus_length [OF nz, of position] lb n8
  have m1: "memset_zero (?bufs ! ?i) (?off + 8) (unat ?len - 8) =
      Inr (take (?off + 8) (?bufs ! ?i) @ replicate (unat ?len - 8) 0 @ drop (?off + unat ?len) (?bufs ! ?i))"
    by (simp add: memset_zero_def)
  from memset_zero_twice [OF m1 n8]
  have m2: "memset_zero (take (?off + 8) (?bufs ! ?i) @ replicate (unat ?len - 8) 0 @
                drop (?off + unat ?len) (?bufs ! ?i)) ?off 8 =
      Inr (take ?off (?bufs ! ?i) @ replicate (unat ?len) 0 @ drop (?off + unat ?len) (?bufs ! ?i))" .
  from m1 u8 have m1': "memset_zero (?bufs ! ?i) (?off + 8) (unat (?len - 8)) =
      Inr (take (?off + 8) (?bufs ! ?i) @ replicate (unat ?len - 8) 0 @ drop (?off + unat ?len) (?bufs ! ?i))"
    by simp
  show ?thesis
    unfolding clean_buffer_unfold [OF above]
    using idx by (simp add: m1' m2 cleaned_up_to_def Let_def)
qed

lemma cleaned_up_to_clean_position:
  "clean_position (publication (cleaned_up_to d position)) =
     clean_position (publication d) + clean_length_of (publication d) position"
  by (simp add: cleaned_up_to_def Let_def)

lemma clean_length_within:
  assumes "position - clean_position pub \<le> mapped_raw_log_term_length pub - term_offset_of pub"
  shows "clean_position pub + clean_length_of pub position = position"
proof -
  from assms have "clean_length_of pub position = position - clean_position pub"
    by (auto simp: clean_length_of_def Let_def)
  then show ?thesis by simp
qed

text \<open>Byte by byte: the cleared range is zero, every other byte is as before.\<close>

lemma cleaned_up_to_bytes:
  assumes i: "dirty_index_of (publication d) < length (mapped_raw_log_term_buffers (publication d))"
    and fit: "unat (term_offset_of (publication d)) + unat (clean_length_of (publication d) position) \<le>
                length (mapped_raw_log_term_buffers (publication d) ! dirty_index_of (publication d))"
  shows "mapped_raw_log_term_buffers (publication (cleaned_up_to d position)) =
           (mapped_raw_log_term_buffers (publication d))
             [dirty_index_of (publication d) :=
                map (\<lambda>j. if unat (term_offset_of (publication d)) \<le> j \<and>
                             j < unat (term_offset_of (publication d)) +
                                 unat (clean_length_of (publication d) position)
                          then 0
                          else mapped_raw_log_term_buffers (publication d) ! dirty_index_of (publication d) ! j)
                  [0 ..< length (mapped_raw_log_term_buffers (publication d) ! dirty_index_of (publication d))]]"
proof -
  let ?buf = "mapped_raw_log_term_buffers (publication d) ! dirty_index_of (publication d)"
  let ?off = "unat (term_offset_of (publication d))"
  let ?n = "unat (clean_length_of (publication d) position)"
  have "take ?off ?buf @ replicate ?n 0 @ drop (?off + ?n) ?buf =
        map (\<lambda>j. if ?off \<le> j \<and> j < ?off + ?n then 0 else ?buf ! j) [0 ..< length ?buf]"
    using fit by (intro nth_equalityI) (auto simp: nth_append)
  then show ?thesis
    by (simp add: cleaned_up_to_def Let_def)
qed


lemma index_by_position_0: "aeron_logbuffer_index_by_position 0 16 = 0"
  by (simp add: aeron_logbuffer_index_by_position_def c_rem64_def AERON_LOGBUFFER_PARTITION_COUNT_def)





section \<open>Updating the publication limit\<close>

lemma scan_sub_pos_all_resting:
  "\<forall>tp \<in> set tps. tether_state tp = AERON_SUBSCRIPTION_TETHER_RESTING \<Longrightarrow>
   scan_sub_pos d tps (mn, mx) = (mn, mx)"
  by (induction tps) auto

text \<open>
  With subscribers that are all resting, the second test \<open>0 == subscribable.length\<close> is
  false as the first one was, so the code goes on with \<open>min_sub_pos = INT64_MAX\<close>; unless
  \<open>INT64_MAX + term_window_length\<close>, wrapped around, is above the trip limit, nothing
  changes.
\<close>

lemma all_resting_no_change:
  assumes "subscribable (publication d) \<noteq> []"
    and "\<forall>tp \<in> set (subscribable (publication d)). tether_state tp = AERON_SUBSCRIPTION_TETHER_RESTING"
    and "\<not> trip_limit (publication d) <s INT64_MAX + term_window_length (publication d)"
  shows "aeron_ipc_publication_update_pub_lmt d = Inr (d, 0)"
  using assms
  by (simp add: aeron_ipc_publication_update_pub_lmt_def Let_def scan_sub_pos_all_resting)

text \<open>
  C1. The claim: with a non-empty subscribable set whose subscribers are all resting,
  \<open>updatePubLmt\<close> stores \<open>pubLmt = maxSubPos\<close> (here the consumer position, 8192), sets
  \<open>tripLimit = maxSubPos\<close> and returns 0. On the example the code returns 0 and changes
  nothing: the publication limit stays 32768 and the trip limit 36864.
\<close>

theorem update_pub_lmt_all_resting_example:
  "aeron_ipc_publication_update_pub_lmt all_resting_driver = Inr (all_resting_driver, 0) \<and>
   consumer_position (publication all_resting_driver) = 8192 \<and>
   counters all_resting_driver (value_addr (pub_lmt_position (publication all_resting_driver))) = 32768 \<and>
   trip_limit (publication all_resting_driver) = 36864"
  by (simp add: aeron_ipc_publication_update_pub_lmt_def all_resting_driver_def resting_position_def
      example_publication_def INT64_MAX_def word_sless_alt)

subsection \<open>The limit advances past the trip limit\<close>

text \<open>
  The scan gives the least position (in the signed order) of the subscribers that are
  not resting, when there is one.
\<close>

lemma scan_sub_pos_min_below:
  "fst (scan_sub_pos d tps (mn, mx)) \<le>s mn"
proof (induction tps arbitrary: mn mx)
  case Nil
  then show ?case by simp
next
  case (Cons tp tps)
  show ?case
    using Cons.IH [of mn mx]
      Cons.IH [of "if counters d (value_addr tp) <s mn then counters d (value_addr tp) else mn"
                  "if mx <s counters d (value_addr tp) then counters d (value_addr tp) else mx"]
    by (auto simp: aeron_counter_get_volatile_def Let_def word_sle_eq word_sless_alt)
qed

lemma scan_sub_pos_min_le:
  "tp \<in> set tps \<Longrightarrow> tether_state tp \<noteq> AERON_SUBSCRIPTION_TETHER_RESTING \<Longrightarrow>
   fst (scan_sub_pos d tps (mn, mx)) \<le>s counters d (value_addr tp)"
proof (induction tps arbitrary: mn mx)
  case Nil
  then show ?case by simp
next
  case (Cons a tps)
  show ?case
  proof (cases "tp = a")
    case True
    with Cons.prems
      scan_sub_pos_min_below [of d tps "if counters d (value_addr a) <s mn then counters d (value_addr a) else mn"
        "if mx <s counters d (value_addr a) then counters d (value_addr a) else mx"]
    show ?thesis
      by (auto simp: aeron_counter_get_volatile_def Let_def word_sle_eq word_sless_alt)
  next
    case False
    with Cons.prems have "tp \<in> set tps" by simp
    with Cons.IH Cons.prems(2) show ?thesis
      by (auto simp: Let_def)
  qed
qed

lemma scan_sub_pos_min_mem:
  "fst (scan_sub_pos d tps (mn, mx)) = mn \<or>
   (\<exists>tp \<in> set tps. tether_state tp \<noteq> AERON_SUBSCRIPTION_TETHER_RESTING \<and>
      fst (scan_sub_pos d tps (mn, mx)) = counters d (value_addr tp))"
proof (induction tps arbitrary: mn mx)
  case Nil
  then show ?case by simp
next
  case (Cons a tps)
  show ?case
    using Cons.IH [of mn mx]
      Cons.IH [of "if counters d (value_addr a) <s mn then counters d (value_addr a) else mn"
                  "if mx <s counters d (value_addr a) then counters d (value_addr a) else mx"]
    by (auto simp: aeron_counter_get_volatile_def Let_def)
qed

lemma sle_INT64_MAX: "(x :: int64) \<le>s INT64_MAX"
  using sint_lt [of x] by (simp add: word_sle_eq INT64_MAX_def)

lemma scan_sub_pos_min_is_position:
  assumes "\<exists>tp \<in> set tps. tether_state tp \<noteq> AERON_SUBSCRIPTION_TETHER_RESTING"
  shows "\<exists>tp \<in> set tps. tether_state tp \<noteq> AERON_SUBSCRIPTION_TETHER_RESTING \<and>
           fst (scan_sub_pos d tps (INT64_MAX, mx)) = counters d (value_addr tp)"
proof (cases "fst (scan_sub_pos d tps (INT64_MAX, mx)) = INT64_MAX")
  case True
  from assms obtain tp where tp: "tp \<in> set tps" "tether_state tp \<noteq> AERON_SUBSCRIPTION_TETHER_RESTING"
    by blast
  from scan_sub_pos_min_le [OF tp, of d INT64_MAX mx] True
  have "INT64_MAX \<le>s counters d (value_addr tp)" by simp
  with sle_INT64_MAX [of "counters d (value_addr tp)"]
  have "counters d (value_addr tp) = INT64_MAX"
    by (simp add: signed.order_antisym)
  with tp True show ?thesis by auto
next
  case False
  with scan_sub_pos_min_mem [of d tps INT64_MAX mx] show ?thesis by simp
qed

lemma update_pub_lmt_trip:
  assumes "\<exists>tp \<in> set (subscribable (publication d)). tether_state tp \<noteq> AERON_SUBSCRIPTION_TETHER_RESTING"
    and "scan_sub_pos d (subscribable (publication d)) (INT64_MAX, consumer_position (publication d)) =
           (min_sub_pos, max_sub_pos)"
    and "trip_limit (publication d) <s min_sub_pos + term_window_length (publication d)"
  shows "aeron_ipc_publication_update_pub_lmt d =
     (case aeron_ipc_publication_clean_buffer d min_sub_pos of
        Inl e \<Rightarrow> Inl e
      | Inr d1 \<Rightarrow>
          Inr (d1\<lparr>counters := (counters d1)
                     (value_addr (pub_lmt_position (publication d)) :=
                        min_sub_pos + term_window_length (publication d)),
                  publication := (publication d1)
                    \<lparr>trip_limit := min_sub_pos + term_window_length (publication d) + trip_gain (publication d),
                     consumer_position := max_sub_pos\<rparr>,
                  ordered_stores := ordered_stores d1 @
                    [CounterSetOrdered (value_addr (pub_lmt_position (publication d)))
                       (min_sub_pos + term_window_length (publication d))]\<rparr>, 1))"
proof -
  from assms(1) have "subscribable (publication d) \<noteq> []" by auto
  with assms(2,3) show ?thesis
    by (simp add: aeron_ipc_publication_update_pub_lmt_def Let_def aeron_counter_set_ordered_def
        split: sum.splits)
qed


text \<open>
  C6, as amended. With a subscriber that is not resting, \<open>min_sub_pos\<close> is the least
  position of the subscribers that are not resting; when \<open>proposed_limit = min_sub_pos +
  term_window_length\<close> is above the trip limit, the call cleans the buffer from the clean
  position up to \<open>min_sub_pos\<close>, but never past the end of the term that holds the clean
  position (so it reaches \<open>min_sub_pos\<close> when that lies within the term), stores
  \<open>proposed_limit\<close> (ordered) to the publication limit, sets the trip limit to
  \<open>proposed_limit + trip_gain\<close>, sets the consumer position to \<open>max_sub_pos\<close> and returns 1.
  It returns so when there is nothing to clean, and when the dirty index is in range,
  the term buffers have \<open>term_length\<close> bytes each (not zero) and at least eight bytes are
  cleared. In particular, with a single subscriber that is not resting at position 0, a
  window of 1024 and a trip gain of 128, a trip limit below 1024 and nothing to clean,
  the publication limit becomes 1024, the trip limit 1152 and the work count 1.
\<close>

theorem update_pub_lmt_advances:
  "(let pub = publication d;
        lmt = value_addr (pub_lmt_position pub);
        proposed_limit = min_sub_pos + term_window_length pub;
        store_limit = (\<lambda>d1. d1\<lparr>counters := (counters d1)(lmt := proposed_limit),
                               publication := (publication d1)
                                 \<lparr>trip_limit := proposed_limit + trip_gain pub,
                                  consumer_position := max_sub_pos\<rparr>,
                               ordered_stores := ordered_stores d1 @ [CounterSetOrdered lmt proposed_limit]\<rparr>)
    in (\<exists>tp \<in> set (subscribable pub). tether_state tp \<noteq> AERON_SUBSCRIPTION_TETHER_RESTING) \<and>
       scan_sub_pos d (subscribable pub) (INT64_MAX, consumer_position pub) = (min_sub_pos, max_sub_pos) \<and>
       trip_limit pub <s proposed_limit \<longrightarrow>
         (\<forall>tp \<in> set (subscribable pub).
             tether_state tp \<noteq> AERON_SUBSCRIPTION_TETHER_RESTING \<longrightarrow> min_sub_pos \<le>s counters d (value_addr tp)) \<and>
         (\<exists>tp \<in> set (subscribable pub).
             tether_state tp \<noteq> AERON_SUBSCRIPTION_TETHER_RESTING \<and> min_sub_pos = counters d (value_addr tp)) \<and>
         aeron_ipc_publication_update_pub_lmt d =
           (case aeron_ipc_publication_clean_buffer d min_sub_pos of
              Inl e \<Rightarrow> Inl e
            | Inr d1 \<Rightarrow> Inr (store_limit d1, 1)) \<and>
         (\<not> clean_position pub <s min_sub_pos \<longrightarrow>
            aeron_ipc_publication_update_pub_lmt d = Inr (store_limit d, 1)) \<and>
         (clean_position pub <s min_sub_pos \<and>
          dirty_index_of pub < length (mapped_raw_log_term_buffers pub) \<and>
          (\<forall>buf \<in> set (mapped_raw_log_term_buffers pub). length buf = unat (mapped_raw_log_term_length pub)) \<and>
          mapped_raw_log_term_length pub \<noteq> 0 \<and>
          8 \<le> clean_length_of pub min_sub_pos \<longrightarrow>
            aeron_ipc_publication_update_pub_lmt d = Inr (store_limit (cleaned_up_to d min_sub_pos), 1) \<and>
            (min_sub_pos - clean_position pub \<le> mapped_raw_log_term_length pub - term_offset_of pub \<longrightarrow>
               clean_position (publication (cleaned_up_to d min_sub_pos)) = min_sub_pos))) \<and>
   (subscribable (publication d) = [tp0] \<and> tether_state tp0 \<noteq> AERON_SUBSCRIPTION_TETHER_RESTING \<and>
    counters d (value_addr tp0) = 0 \<and>
    term_window_length (publication d) = 1024 \<and> trip_gain (publication d) = 128 \<and>
    trip_limit (publication d) <s 1024 \<and> \<not> clean_position (publication d) <s 0 \<longrightarrow>
      aeron_ipc_publication_update_pub_lmt d =
        Inr (d\<lparr>counters := (counters d)(value_addr (pub_lmt_position (publication d)) := 1024),
               publication := (publication d)
                 \<lparr>trip_limit := 1152,
                  consumer_position :=
                    (if consumer_position (publication d) <s 0 then 0 else consumer_position (publication d))\<rparr>,
               ordered_stores := ordered_stores d @
                 [CounterSetOrdered (value_addr (pub_lmt_position (publication d))) 1024]\<rparr>, 1))"
proof -
  let ?pub = "publication d"
  have general: "aeron_ipc_publication_update_pub_lmt d =
           (case aeron_ipc_publication_clean_buffer d min_sub_pos of
              Inl e \<Rightarrow> Inl e
            | Inr d1 \<Rightarrow>
                Inr (d1\<lparr>counters := (counters d1)
                        (value_addr (pub_lmt_position ?pub) := min_sub_pos + term_window_length ?pub),
                     publication := (publication d1)
                       \<lparr>trip_limit := min_sub_pos + term_window_length ?pub + trip_gain ?pub,
                        consumer_position := max_sub_pos\<rparr>,
                     ordered_stores := ordered_stores d1 @
                       [CounterSetOrdered (value_addr (pub_lmt_position ?pub))
                          (min_sub_pos + term_window_length ?pub)]\<rparr>, 1))"
    if h: "(\<exists>tp \<in> set (subscribable ?pub). tether_state tp \<noteq> AERON_SUBSCRIPTION_TETHER_RESTING)"
      "scan_sub_pos d (subscribable ?pub) (INT64_MAX, consumer_position ?pub) = (min_sub_pos, max_sub_pos)"
      "trip_limit ?pub <s min_sub_pos + term_window_length ?pub"
    using h by (rule update_pub_lmt_trip)
  have mins: "(\<forall>tp \<in> set (subscribable ?pub).
             tether_state tp \<noteq> AERON_SUBSCRIPTION_TETHER_RESTING \<longrightarrow> min_sub_pos \<le>s counters d (value_addr tp)) \<and>
         (\<exists>tp \<in> set (subscribable ?pub).
             tether_state tp \<noteq> AERON_SUBSCRIPTION_TETHER_RESTING \<and> min_sub_pos = counters d (value_addr tp))"
    if h: "(\<exists>tp \<in> set (subscribable ?pub). tether_state tp \<noteq> AERON_SUBSCRIPTION_TETHER_RESTING)"
      "scan_sub_pos d (subscribable ?pub) (INT64_MAX, consumer_position ?pub) = (min_sub_pos, max_sub_pos)"
  proof -
    from h(2) have m: "min_sub_pos =
        fst (scan_sub_pos d (subscribable ?pub) (INT64_MAX, consumer_position ?pub))"
      by simp
    show ?thesis
      unfolding m using h(1)
      by (blast intro: scan_sub_pos_min_le scan_sub_pos_min_is_position)
  qed
  have scenario: "aeron_ipc_publication_update_pub_lmt d =
        Inr (d\<lparr>counters := (counters d)(value_addr (pub_lmt_position ?pub) := 1024),
               publication := ?pub
                 \<lparr>trip_limit := 1152,
                  consumer_position := (if consumer_position ?pub <s 0 then 0 else consumer_position ?pub)\<rparr>,
               ordered_stores := ordered_stores d @
                 [CounterSetOrdered (value_addr (pub_lmt_position ?pub)) 1024]\<rparr>, 1)"
    if h: "subscribable ?pub = [tp0] \<and> tether_state tp0 \<noteq> AERON_SUBSCRIPTION_TETHER_RESTING \<and>
      counters d (value_addr tp0) = 0 \<and>
      term_window_length ?pub = 1024 \<and> trip_gain ?pub = 128 \<and>
      trip_limit ?pub <s 1024 \<and> \<not> clean_position ?pub <s 0"
  proof -
    from h have s: "scan_sub_pos d (subscribable ?pub) (INT64_MAX, consumer_position ?pub) =
        (0, if consumer_position ?pub <s 0 then 0 else consumer_position ?pub)"
      by (auto simp: aeron_counter_get_volatile_def INT64_MAX_def word_sless_alt)
    have "\<exists>tp \<in> set (subscribable ?pub). tether_state tp \<noteq> AERON_SUBSCRIPTION_TETHER_RESTING"
      using h by simp
    from update_pub_lmt_trip [OF this s] h show ?thesis
      by (simp add: clean_buffer_not_above)
  qed
  show ?thesis
    unfolding Let_def
    using general mins scenario clean_buffer_not_above [of d min_sub_pos]
      clean_buffer_returns [of d min_sub_pos] cleaned_up_to_clean_position [of d min_sub_pos]
      clean_length_within [of min_sub_pos ?pub]
    by (auto split: sum.splits)
qed

text \<open>
  A subscriber at 4096 on the fresh example publication: the first 4096 bytes of the
  first term are cleared and the limit becomes 36864; and the scenario of the spec.
\<close>

theorem update_pub_lmt_advances_witness:
  "subscribable (publication advancing_driver) = [tethered_position] \<and>
   tether_state tethered_position \<noteq> AERON_SUBSCRIPTION_TETHER_RESTING \<and>
   scan_sub_pos advancing_driver (subscribable (publication advancing_driver))
     (INT64_MAX, consumer_position (publication advancing_driver)) = (4096, 4096) \<and>
   trip_limit (publication advancing_driver) <s 4096 + term_window_length (publication advancing_driver) \<and>
   clean_position (publication advancing_driver) <s 4096 \<and>
   dirty_index_of (publication advancing_driver) <
     length (mapped_raw_log_term_buffers (publication advancing_driver)) \<and>
   map length (mapped_raw_log_term_buffers (publication advancing_driver)) = [65536, 65536, 65536] \<and>
   unat (mapped_raw_log_term_length (publication advancing_driver)) = 65536 \<and>
   8 \<le> clean_length_of (publication advancing_driver) 4096 \<and>
   aeron_ipc_publication_update_pub_lmt advancing_driver = Inr (advanced_driver, 1) \<and>
   clean_position (publication advanced_driver) = 4096 \<and>
   counters advanced_driver 10 = 36864 \<and>
   trip_limit (publication advanced_driver) = 40960 \<and>
   subscribable (publication single_tethered_driver) = [tethered_position] \<and>
   is_tether tethered_position \<and>
   counters single_tethered_driver (value_addr tethered_position) = 0 \<and>
   term_window_length (publication single_tethered_driver) = 1024 \<and>
   trip_gain (publication single_tethered_driver) = 128 \<and>
   trip_limit (publication single_tethered_driver) <s 1024 \<and>
   \<not> clean_position (publication single_tethered_driver) <s 0 \<and>
   aeron_ipc_publication_update_pub_lmt single_tethered_driver =
     Inr (single_tethered_driver
            \<lparr>counters := (\<lambda>a. 0)(10 := 1024),
             publication := (publication single_tethered_driver)\<lparr>trip_limit := 1152\<rparr>,
             ordered_stores := [CounterSetOrdered 10 1024]\<rparr>, 1)"
proof -
  have a: "scan_sub_pos advancing_driver (subscribable (publication advancing_driver))
     (INT64_MAX, consumer_position (publication advancing_driver)) = (4096, 4096)"
    by (simp add: advancing_driver_def tethered_position_def example_publication_def
        aeron_counter_get_volatile_def INT64_MAX_def word_sless_alt)
  have b: "\<exists>tp \<in> set (subscribable (publication advancing_driver)).
      tether_state tp \<noteq> AERON_SUBSCRIPTION_TETHER_RESTING"
    "trip_limit (publication advancing_driver) <s 4096 + term_window_length (publication advancing_driver)"
    "clean_position (publication advancing_driver) <s 4096"
    by (simp_all add: advancing_driver_def tethered_position_def example_publication_def word_sless_alt)
  have c: "map length (mapped_raw_log_term_buffers (publication advancing_driver)) = [65536, 65536, 65536]"
    "unat (mapped_raw_log_term_length (publication advancing_driver)) = 65536"
    "\<forall>buf \<in> set (mapped_raw_log_term_buffers (publication advancing_driver)).
        length buf = unat (mapped_raw_log_term_length (publication advancing_driver))"
    "mapped_raw_log_term_length (publication advancing_driver) \<noteq> 0"
    "dirty_index_of (publication advancing_driver) <
       length (mapped_raw_log_term_buffers (publication advancing_driver))"
    "8 \<le> clean_length_of (publication advancing_driver) 4096"
    by (simp_all add: advancing_driver_def example_publication_def example_term_buffer_def
        dirty_index_of_def index_by_position_0 clean_length_of_def term_offset_of_def)
  have e: "(cleaned_up_to advancing_driver 4096)
      \<lparr>counters := (counters (cleaned_up_to advancing_driver 4096))
         (value_addr (pub_lmt_position (publication advancing_driver)) :=
            4096 + term_window_length (publication advancing_driver)),
       publication := (publication (cleaned_up_to advancing_driver 4096))
         \<lparr>trip_limit := 4096 + term_window_length (publication advancing_driver) +
            trip_gain (publication advancing_driver),
          consumer_position := 4096\<rparr>,
       ordered_stores := ordered_stores (cleaned_up_to advancing_driver 4096) @
         [CounterSetOrdered (value_addr (pub_lmt_position (publication advancing_driver)))
            (4096 + term_window_length (publication advancing_driver))]\<rparr> = advanced_driver"
    by (simp add: cleaned_up_to_def advancing_driver_def advanced_driver_def example_publication_def
        Let_def dirty_index_of_def term_offset_of_def clean_length_of_def index_by_position_0
        example_term_buffer_def fun_upd_twist)
  have f: "clean_position (publication advanced_driver) = 4096"
    "counters advanced_driver 10 = 36864" "trip_limit (publication advanced_driver) = 40960"
    by (simp_all add: advanced_driver_def)
  have g: "subscribable (publication single_tethered_driver) = [tethered_position]"
    "tether_state tethered_position \<noteq> AERON_SUBSCRIPTION_TETHER_RESTING"
    "is_tether tethered_position"
    "counters single_tethered_driver (value_addr tethered_position) = 0"
    "term_window_length (publication single_tethered_driver) = 1024"
    "trip_gain (publication single_tethered_driver) = 128"
    "trip_limit (publication single_tethered_driver) <s 1024"
    "\<not> clean_position (publication single_tethered_driver) <s 0"
    by (simp_all add: single_tethered_driver_def tethered_position_def example_driver_def
        example_publication_def word_sless_alt)
  have k: "subscribable (publication advancing_driver) = [tethered_position]"
    by (simp add: advancing_driver_def)
  have u1: "aeron_ipc_publication_update_pub_lmt advancing_driver = Inr (advanced_driver, 1)"
    using update_pub_lmt_advances [of advancing_driver 4096 4096 tethered_position] a b c
    by (simp (no_asm_use) add: Let_def e) blast
  have u2: "aeron_ipc_publication_update_pub_lmt single_tethered_driver =
     Inr (single_tethered_driver
            \<lparr>counters := (\<lambda>a. 0)(10 := 1024),
             publication := (publication single_tethered_driver)\<lparr>trip_limit := 1152\<rparr>,
             ordered_stores := [CounterSetOrdered 10 1024]\<rparr>, 1)"
    using update_pub_lmt_advances [of single_tethered_driver 0 0 tethered_position, THEN conjunct2] g
    by (simp add: Let_def)
       (simp add: single_tethered_driver_def tethered_position_def example_driver_def
        example_publication_def word_sless_alt)
  from a b c f g k u1 u2 show ?thesis by simp
qed

text \<open>
  C6, as claimed: the call cleans the buffer up to \<open>minSubPos\<close>. On the fresh example
  publication, with terms of 65536 bytes and the only subscriber at 100000, the call
  returns 1 with the limit 132768, but it has cleaned the first term only: the clean
  position is 65536, and the second term is untouched.
\<close>

theorem update_pub_lmt_crossing_counterexample:
  "tether_state tethered_position \<noteq> AERON_SUBSCRIPTION_TETHER_RESTING \<and>
   subscribable (publication crossing_driver) = [tethered_position] \<and>
   counters crossing_driver (value_addr tethered_position) = 100000 \<and>
   trip_limit (publication crossing_driver) <s 100000 + term_window_length (publication crossing_driver) \<and>
   aeron_ipc_publication_update_pub_lmt crossing_driver = Inr (crossed_driver, 1) \<and>
   clean_position (publication crossed_driver) = 65536 \<and>
   mapped_raw_log_term_buffers (publication crossed_driver) ! 1 = replicate 65536 0xFF"
  by (simp add: aeron_ipc_publication_update_pub_lmt_def aeron_ipc_publication_clean_buffer_def
      aeron_counter_get_volatile_def aeron_counter_set_ordered_def
      crossing_driver_def crossed_driver_def tethered_position_def example_publication_def
      Let_def index_by_position_0 word_sless_alt memset_zero_def example_term_buffer_def INT64_MAX_def
      replicate_add [symmetric] fun_upd_twist)

section \<open>Untethered subscriptions\<close>

text \<open>
  One step of the loop changes the counter of its own element at most, keeps the
  timeouts of the conductor, and leaves the publication in the memory as it is.
\<close>

lemma check_tetherable_position_frame:
  assumes "check_tetherable_position cp lim now c d tp = (c1, d1, tp1)"
  shows "untethered_window_limit_timeout_ns c1 = untethered_window_limit_timeout_ns c \<and>
         untethered_resting_timeout_ns c1 = untethered_resting_timeout_ns c \<and>
         publication d1 = publication d \<and>
         (\<forall>a. a \<noteq> value_addr tp \<longrightarrow> counters d1 a = counters d a) \<and>
         value_addr tp1 = value_addr tp"
  using assms
  by (auto simp: check_tetherable_position_def Let_def aeron_driver_conductor_on_unavailable_image_def
      aeron_driver_conductor_on_available_image_def aeron_counter_set_ordered_def
      split: if_splits aeron_subscription_tether_state.splits)

lemma check_tetherable_position_active:
  assumes "\<not> is_tether tp" and "tether_state tp = AERON_SUBSCRIPTION_TETHER_ACTIVE"
  shows "snd (snd (check_tetherable_position cp lim now c d tp)) =
     (if lim <s counters d (value_addr tp) then tp\<lparr>time_of_last_update_ns := now\<rparr>
      else if time_of_last_update_ns tp + untethered_window_limit_timeout_ns c <s now
      then tp\<lparr>tether_state := AERON_SUBSCRIPTION_TETHER_LINGER, time_of_last_update_ns := now\<rparr>
      else tp)"
  using assms
  by (simp add: check_tetherable_position_def Let_def aeron_counter_get_volatile_def)

lemma check_tetherable_positions_nth:
  assumes "i < length tps" and "distinct (map value_addr tps)"
  shows "\<exists>c' d'. untethered_window_limit_timeout_ns c' = untethered_window_limit_timeout_ns c \<and>
           counters d' (value_addr (tps ! i)) = counters d (value_addr (tps ! i)) \<and>
           snd (snd (check_tetherable_positions cp lim now c d tps)) ! i =
             snd (snd (check_tetherable_position cp lim now c' d' (tps ! i)))"
  using assms
proof (induction tps arbitrary: i c d)
  case Nil
  then show ?case by simp
next
  case (Cons tp tps)
  obtain c1 d1 tp1 where step: "check_tetherable_position cp lim now c d tp = (c1, d1, tp1)"
    by (cases "check_tetherable_position cp lim now c d tp") auto
  obtain c2 d2 rest2 where rest: "check_tetherable_positions cp lim now c1 d1 tps = (c2, d2, rest2)"
    by (cases "check_tetherable_positions cp lim now c1 d1 tps") auto
  note fr = check_tetherable_position_frame [OF step]
  show ?case
  proof (cases i)
    case 0
    with step rest show ?thesis
      by (intro exI [of _ c] exI [of _ d]) simp
  next
    case (Suc j)
    with Cons.prems have j: "j < length tps" and dist: "distinct (map value_addr tps)"
      and nin: "value_addr tp \<notin> value_addr ` set tps"
      by auto
    have ne: "value_addr (tps ! j) \<noteq> value_addr tp"
    proof
      assume eq: "value_addr (tps ! j) = value_addr tp"
      from nth_mem [OF j] have "value_addr (tps ! j) \<in> value_addr ` set tps"
        by (rule imageI)
      with eq nin show False by simp
    qed
    from Cons.IH [OF j dist, of c1 d1] obtain c' d' where
      h: "untethered_window_limit_timeout_ns c' = untethered_window_limit_timeout_ns c1"
         "counters d' (value_addr (tps ! j)) = counters d1 (value_addr (tps ! j))"
         "snd (snd (check_tetherable_positions cp lim now c1 d1 tps)) ! j =
             snd (snd (check_tetherable_position cp lim now c' d' (tps ! j)))"
      by blast
    from h fr ne Suc step rest show ?thesis
      by (intro exI [of _ c'] exI [of _ d']) simp
  qed
qed

lemma check_untethered_subscribable:
  "subscribable (publication (snd (aeron_ipc_publication_check_untethered_subscriptions conductor d now_ns))) =
     snd (snd (check_tetherable_positions (consumer_position (publication d))
       (untethered_window_limit_of (publication d)) now_ns conductor d (subscribable (publication d))))"
  by (simp add: aeron_ipc_publication_check_untethered_subscriptions_def Let_def split: prod.splits)

text \<open>
  C4, as amended. For an untethered subscriber in state ACTIVE (each subscriber having
  its own counter), \<open>checkUntetheredSubscriptions\<close> keeps it ACTIVE and refreshes its
  time of last update when its position is strictly above
  \<open>consumerPosition - termWindowLength + termWindowLength / 8\<close>; when its position is at
  that limit or below, the time is not refreshed, and the subscriber goes to LINGER (with
  the time set to now) once now is past the time of last update plus the window limit
  timeout, and is left as it is before that.
\<close>

theorem check_untethered_active:
  assumes "i < length (subscribable (publication d))"
    and "distinct (map value_addr (subscribable (publication d)))"
    and "\<not> is_tether (subscribable (publication d) ! i)"
    and "tether_state (subscribable (publication d) ! i) = AERON_SUBSCRIPTION_TETHER_ACTIVE"
  shows "subscribable (publication (snd (aeron_ipc_publication_check_untethered_subscriptions conductor d now_ns))) ! i =
     (let tp = subscribable (publication d) ! i;
          position = counters d (value_addr tp);
          untethered_window_limit =
            (consumer_position (publication d) - term_window_length (publication d)) +
              c_div64 (term_window_length (publication d)) 8
      in if untethered_window_limit <s position then tp\<lparr>time_of_last_update_ns := now_ns\<rparr>
         else if time_of_last_update_ns tp + untethered_window_limit_timeout_ns conductor <s now_ns
         then tp\<lparr>tether_state := AERON_SUBSCRIPTION_TETHER_LINGER, time_of_last_update_ns := now_ns\<rparr>
         else tp)"
proof -
  from check_tetherable_positions_nth [OF assms(1,2), of conductor d
      "consumer_position (publication d)" "untethered_window_limit_of (publication d)" now_ns]
  obtain c' d' where
    h: "untethered_window_limit_timeout_ns c' = untethered_window_limit_timeout_ns conductor"
       "counters d' (value_addr (subscribable (publication d) ! i)) =
          counters d (value_addr (subscribable (publication d) ! i))"
       "snd (snd (check_tetherable_positions (consumer_position (publication d))
           (untethered_window_limit_of (publication d)) now_ns conductor d (subscribable (publication d)))) ! i =
        snd (snd (check_tetherable_position (consumer_position (publication d))
           (untethered_window_limit_of (publication d)) now_ns c' d' (subscribable (publication d) ! i)))"
    by blast
  show ?thesis
    unfolding check_untethered_subscribable h(3)
    by (simp add: check_tetherable_position_active [OF assms(3,4)] h(1,2) Let_def
        untethered_window_limit_of_def)
qed

text \<open>
  At the limit, six seconds after the last update, the subscriber goes to LINGER; one
  byte above the limit it stays ACTIVE.
\<close>

theorem check_untethered_active_witness:
  "0 < length (subscribable (publication at_limit_driver)) \<and>
   distinct (map value_addr (subscribable (publication at_limit_driver))) \<and>
   \<not> is_tether (subscribable (publication at_limit_driver) ! 0) \<and>
   tether_state (subscribable (publication at_limit_driver) ! 0) = AERON_SUBSCRIPTION_TETHER_ACTIVE \<and>
   subscribable (publication (snd (aeron_ipc_publication_check_untethered_subscriptions
       example_conductor at_limit_driver 6000000000))) ! 0 =
     at_limit_position\<lparr>tether_state := AERON_SUBSCRIPTION_TETHER_LINGER,
                        time_of_last_update_ns := 6000000000\<rparr> \<and>
   subscribable (publication (snd (aeron_ipc_publication_check_untethered_subscriptions
       example_conductor (at_limit_driver\<lparr>counters := (\<lambda>a. 0)(12 := 36865)\<rparr>) 6000000000))) ! 0 =
     at_limit_position\<lparr>time_of_last_update_ns := 6000000000\<rparr>"
  using check_untethered_active [of 0 at_limit_driver example_conductor 6000000000]
    check_untethered_active [of 0 "at_limit_driver\<lparr>counters := (\<lambda>a. 0)(12 := 36865)\<rparr>"
      example_conductor 6000000000]
  by (simp add: at_limit_driver_def at_limit_position_def example_publication_def example_conductor_def
      c_div64_def word_sless_alt Let_def)

text \<open>
  C4, as claimed: a subscriber exactly at \<open>consumerPosition - termWindowLength +
  tripGain\<close> is kept ACTIVE however much time elapses. On the example the position 36864
  is exactly that limit, and the call six seconds after the last update moves the
  subscriber to LINGER and notifies the client that the image is unavailable.
\<close>

theorem check_untethered_at_limit_counterexample:
  "counters at_limit_driver (value_addr at_limit_position) =
     consumer_position (publication at_limit_driver) - term_window_length (publication at_limit_driver) +
       trip_gain (publication at_limit_driver) \<and>
   aeron_ipc_publication_check_untethered_subscriptions example_conductor at_limit_driver 6000000000 =
     (example_conductor\<lparr>image_events := [OnUnavailableImage 7 21 1001]\<rparr>,
      at_limit_driver\<lparr>publication := (publication at_limit_driver)
        \<lparr>subscribable := [at_limit_position\<lparr>tether_state := AERON_SUBSCRIPTION_TETHER_LINGER,
                                            time_of_last_update_ns := 6000000000\<rparr>]\<rparr>\<rparr>)"
  by (simp add: aeron_ipc_publication_check_untethered_subscriptions_def check_tetherable_position_def
      untethered_window_limit_of_def aeron_driver_conductor_on_unavailable_image_def
      aeron_counter_get_volatile_def at_limit_driver_def at_limit_position_def example_publication_def
      example_conductor_def c_div64_def word_sless_alt Let_def)

section \<open>Reference counting and the INACTIVE transition\<close>

text \<open>
  C5. The \<open>decref\<close> that takes \<open>refcnt\<close> from 1 to 0 sets the state to INACTIVE, reads the
  producer position, stores it (ordered) to the publication limit exactly when the limit
  is above it, and then stores it (ordered) to \<open>end_of_stream_position\<close>, once; no other
  field, counter or store is touched. The producer position is the one the helper gives
  on the publication at that moment, after the count and the state are assigned.
\<close>

theorem decref_to_zero:
  assumes "refcnt (publication d) = 1"
  shows "aeron_ipc_publication_decref producer_position d =
     (let pub = (publication d)\<lparr>refcnt := 0, state := AERON_IPC_PUBLICATION_STATE_INACTIVE\<rparr>;
          position = producer_position pub;
          lmt = value_addr (pub_lmt_position pub)
      in d\<lparr>counters := (if position <s counters d lmt then (counters d)(lmt := position) else counters d),
           publication := pub\<lparr>log_meta_data := (log_meta_data pub)\<lparr>end_of_stream_position := position\<rparr>\<rparr>,
           ordered_stores := ordered_stores d @
             (if position <s counters d lmt then [CounterSetOrdered lmt position] else []) @
             [PutOrderedEndOfStreamPosition position]\<rparr>)"
  using assms
  by (simp add: aeron_ipc_publication_decref_def Let_def aeron_counter_get_def aeron_counter_set_ordered_def)

text \<open>
  The scenario of the spec: the count is 1, the producer position 10000 and the
  publication limit 20000.
\<close>

theorem decref_to_zero_witness:
  "refcnt (publication (example_driver\<lparr>counters := (\<lambda>a. 0)(10 := 20000)\<rparr>)) = 1 \<and>
   (let d = aeron_ipc_publication_decref (\<lambda>pub. 10000) (example_driver\<lparr>counters := (\<lambda>a. 0)(10 := 20000)\<rparr>)
    in counters d 10 = 10000 \<and>
       state (publication d) = AERON_IPC_PUBLICATION_STATE_INACTIVE \<and>
       end_of_stream_position (log_meta_data (publication d)) = 10000 \<and>
       ordered_stores d = [CounterSetOrdered 10 10000, PutOrderedEndOfStreamPosition 10000])"
  using decref_to_zero [of "example_driver\<lparr>counters := (\<lambda>a. 0)(10 := 20000)\<rparr>" "\<lambda>pub. 10000"]
  by (simp add: example_driver_def example_publication_def Let_def word_sless_alt)

text \<open>
  C10. When \<open>refcnt\<close> is already 0 or negative, \<open>decref\<close> only decrements it: the state, the
  publication limit, \<open>end_of_stream_position\<close> and everything else stay as they are, since
  the decremented count is not 0.
\<close>

theorem decref_below_zero:
  assumes "refcnt (publication d) \<le>s 0"
  shows "aeron_ipc_publication_decref producer_position d =
           d\<lparr>publication := (publication d)\<lparr>refcnt := refcnt (publication d) - 1\<rparr>\<rparr>"
proof -
  have "refcnt (publication d) \<noteq> 1"
    using assms by (auto simp: word_sle_eq)
  then have "refcnt (publication d) - 1 \<noteq> 0"
    by simp
  then show ?thesis
    by (simp add: aeron_ipc_publication_decref_def Let_def)
qed

theorem decref_below_zero_witness:
  "refcnt (publication (example_driver\<lparr>publication := example_publication\<lparr>refcnt := 0\<rparr>\<rparr>)) \<le>s 0 \<and>
   aeron_ipc_publication_decref (\<lambda>pub. 10000) (example_driver\<lparr>publication := example_publication\<lparr>refcnt := 0\<rparr>\<rparr>) =
     example_driver\<lparr>publication := example_publication\<lparr>refcnt := - 1\<rparr>\<rparr>"
  using decref_below_zero [of "example_driver\<lparr>publication := example_publication\<lparr>refcnt := 0\<rparr>\<rparr>" "\<lambda>pub. 10000"]
  by (simp add: example_driver_def)

section \<open>ReplayMerge: polling and the predicate for stopping the replay\<close>

text \<open>
  C8. \<open>poll\<close> runs \<open>doWork\<close> first and only then looks at the image: when the object has no
  image after \<open>doWork\<close>, \<open>poll\<close> gives 0, hands no fragment to the handler and leaves the
  object as \<open>doWork\<close> left it; when it has one, the fragments handed over are the first
  ones (up to \<open>fragmentLimit\<close>) of that image, the image of the object after \<open>doWork\<close>.
\<close>

theorem poll_after_doWork:
  "(m_image (snd (doWork steps this)) = None \<longrightarrow>
      poll steps this fragmentLimit = (0, snd (doWork steps this), [])) \<and>
   (\<forall>img. m_image (snd (doWork steps this)) = Some img \<longrightarrow>
      (let n = min (nat (sint fragmentLimit)) (length (fragments img))
       in poll steps this fragmentLimit =
          (word_of_nat n,
           (snd (doWork steps this))\<lparr>m_image := Some (img\<lparr>fragments := drop n (fragments img)\<rparr>)\<rparr>,
           take n (fragments img))))"
  by (auto simp: poll_def Image_poll_def Let_def split: prod.splits)

text \<open>
  A merged object without an image gives 0; an object in CATCHUP whose \<open>catchup\<close> acquires
  the image during this very call has two fragments of that image handled.
\<close>

theorem poll_after_doWork_witness:
  "m_image (snd (doWork example_steps (example_merge\<lparr>m_state := MERGED, m_image := None\<rparr>))) = None \<and>
   poll example_steps (example_merge\<lparr>m_state := MERGED, m_image := None\<rparr>) 10 =
     (0, example_merge\<lparr>m_state := MERGED, m_image := None\<rparr>, []) \<and>
   m_image (snd (doWork example_steps (example_merge\<lparr>m_state := CATCHUP, m_image := None\<rparr>))) =
     Some example_image \<and>
   poll example_steps (example_merge\<lparr>m_state := CATCHUP, m_image := None\<rparr>) 2 =
     (2, example_merge\<lparr>m_image := Some (example_image\<lparr>fragments := [[6]]\<rparr>)\<rparr>, [[1, 2, 3], [4, 5]])"
proof -
  have a: "doWork example_steps (example_merge\<lparr>m_state := MERGED, m_image := None\<rparr>) =
        (0, example_merge\<lparr>m_state := MERGED, m_image := None\<rparr>)"
    by (simp add: doWork_def)
  have b: "doWork example_steps (example_merge\<lparr>m_state := CATCHUP, m_image := None\<rparr>) =
        (1, example_merge)"
    by (simp add: doWork_def example_steps_def example_merge_def)
  show ?thesis
    using poll_after_doWork [of example_steps "example_merge\<lparr>m_state := MERGED, m_image := None\<rparr>" 10]
      poll_after_doWork [of example_steps "example_merge\<lparr>m_state := CATCHUP, m_image := None\<rparr>" 2]
    by (simp add: a b) (simp add: example_merge_def example_image_def)
qed

text \<open>
  C9. \<open>shouldStopAndRemoveReplay\<close> is true exactly when the live destination has been
  added, \<open>m_nextTargetPosition - position\<close> (as the code computes it) is at most 0 and the
  image has at least two active transports; with an image of one active transport it is
  false, whatever the position.
\<close>

theorem shouldStopAndRemoveReplay_iff:
  "(shouldStopAndRemoveReplay this position = Inr True \<longleftrightarrow>
      m_isLiveAdded this \<and> (m_nextTargetPosition this - position) \<le>s 0 \<and>
      (\<exists>img. m_image this = Some img \<and> 2 \<le>s activeTransportCount img)) \<and>
   (\<forall>img. m_image this = Some img \<and> activeTransportCount img = 1 \<longrightarrow>
      shouldStopAndRemoveReplay this position = Inr False)"
  by (auto simp: shouldStopAndRemoveReplay_def REPLAY_MERGE_REPLAY_REMOVE_THRESHOLD_def deref_def
      word_sle_eq split: option.splits)

theorem shouldStopAndRemoveReplay_iff_witness:
  "m_image example_merge = Some example_image \<and> activeTransportCount example_image = 1 \<and>
   (m_nextTargetPosition example_merge - 10050) \<le>s 0 \<and> m_isLiveAdded example_merge \<and>
   shouldStopAndRemoveReplay example_merge 10050 = Inr False"
  using shouldStopAndRemoveReplay_iff [of example_merge 10050]
  by (simp add: example_merge_def example_image_def)

end
